theory Spec2Isabelle
  imports Main "HOL-Library.AList"
begin

section \<open>Data model of the planning module (planung.py)\<close>

text \<open>
  Times of day (\<open>datetime.time\<close>) are represented by their minute since midnight, so
  \<open>time_to_minutes\<close> and \<open>minutes_to_time\<close> (module stsobj) are the identity on the
  representation. A time attribute that is \<open>None\<close> makes \<open>time_to_minutes\<close> raise
  \<open>AttributeError\<close>; it is \<open>None\<close> here as well.
\<close>

datatype error =
    AttributeError | IndexError | KeyError | TypeError | ValueError
  | NetworkXUnfeasible | RecursionError

text \<open>\<open>angekommen\<close> and \<open>abgefahren\<close> are \<open>Union[bool, datetime.datetime]\<close>.\<close>

datatype status = Falsch | Wahr | Zeitpunkt int

fun wahr :: "status \<Rightarrow> bool" where
  "wahr Falsch = False"
| "wahr Wahr = True"
| "wahr (Zeitpunkt t) = True"

text \<open>Python's \<open>x or True\<close>.\<close>

fun oder_wahr :: "status \<Rightarrow> status" where
  "oder_wahr Falsch = Wahr"
| "oder_wahr s = s"

text \<open>
  A row object is referred to by the zid of its train and its position in the train's
  \<open>fahrplan\<close> list (the list of a train never changes its length after
  \<open>assign_zug_details\<close>).
\<close>

type_synonym zielref = "int \<times> nat"

text \<open>The classes derived from \<open>VerspaetungsKorrektur\<close>, with their attributes.\<close>

datatype korrektur =
    VerspaetungsKorrektur
  | FesteVerspaetung int
  | Signalhalt int
  | Einfahrtszeit
  | PlanmaessigeAbfahrt
  | AnkunftAbwarten "zielref option" int
  | AbfahrtAbwarten "zielref option" int
  | Ersatzzug
  | Kupplung
  | Fluegelung

text \<open>
  \<open>FahrplanZeile\<close> (module stsobj), the row of a timetable as the simulator sends it.
  Its methods \<open>ersatz_zid()\<close>, \<open>kuppel_zid()\<close>, \<open>fluegel_zid()\<close>, \<open>durchfahrt()\<close>,
  \<open>richtungswechsel()\<close>, \<open>lokumlauf()\<close> and \<open>lokwechsel()\<close> parse the \<open>flags\<close> string;
  the row carries their results in place of the string. \<open>zug_zid\<close> is \<open>zeile.zug.zid\<close>;
  \<open>ersatzzug\<close>, \<open>kuppelzug\<close> and \<open>fluegelzug\<close> refer to a train object by its zid.
\<close>

record fahrplanzeile =
  zug_zid :: int
  plan :: string
  gleis :: string
  an :: "int option"
  ab :: "int option"
  ersatz_zid :: "int option"
  kuppel_zid :: "int option"
  fluegel_zid :: "int option"
  durchfahrt :: bool
  richtungswechsel :: bool
  lokumlauf :: bool
  lokwechsel :: bool
  hinweistext :: string
  ersatzzug :: "int option"
  kuppelzug :: "int option"
  fluegelzug :: "int option"

text \<open>\<open>ZugZielPlanung(FahrplanZeile)\<close>.\<close>

record zugziel = fahrplanzeile +
  zielnr :: int
  einfahrt :: bool
  ausfahrt :: bool
  verspaetung_an :: int
  verspaetung_ab :: int
  mindestaufenthalt :: int
  auto_korrektur :: "korrektur option"
  fdl_korrektur :: "korrektur option"
  angekommen :: status
  abgefahren :: status

text \<open>
  \<open>ZugZielPlanung.__init__\<close>: a fresh row of the train \<open>z\<close>. The attributes of the base
  class start empty; \<open>zielnr\<close>, which starts as \<open>None\<close>, is set by every caller before it is
  read.
\<close>

definition ZugZielPlanung :: "int \<Rightarrow> zugziel" where
  "ZugZielPlanung z =
     \<lparr>zug_zid = z, plan = [], gleis = [], an = None, ab = None,
      ersatz_zid = None, kuppel_zid = None, fluegel_zid = None,
      durchfahrt = False, richtungswechsel = False, lokumlauf = False, lokwechsel = False,
      hinweistext = [], ersatzzug = None, kuppelzug = None, fluegelzug = None,
      zielnr = 0, einfahrt = False, ausfahrt = False,
      verspaetung_an = 0, verspaetung_ab = 0, mindestaufenthalt = 0,
      auto_korrektur = None, fdl_korrektur = None,
      angekommen = Falsch, abgefahren = Falsch\<rparr>"

section \<open>Corrections that read and write one row\<close>

text \<open>\<open>VerspaetungsKorrektur.anwenden\<close>.\<close>

definition VerspaetungsKorrektur_anwenden :: "zugziel \<Rightarrow> zugziel" where
  "VerspaetungsKorrektur_anwenden ziel = ziel\<lparr>verspaetung_ab := verspaetung_an ziel\<rparr>"

text \<open>\<open>FesteVerspaetung.anwenden\<close>, inherited by \<open>Signalhalt\<close>.\<close>

definition FesteVerspaetung_anwenden :: "int \<Rightarrow> zugziel \<Rightarrow> zugziel" where
  "FesteVerspaetung_anwenden verspaetung ziel = ziel\<lparr>verspaetung_ab := verspaetung\<rparr>"

text \<open>\<open>Einfahrtszeit.anwenden\<close>; the first argument is \<open>self._planung.simzeit_minuten\<close>.\<close>

definition Einfahrtszeit_anwenden :: "int \<Rightarrow> zugziel \<Rightarrow> zugziel" where
  "Einfahrtszeit_anwenden simzeit_minuten ziel =
     (case an ziel of
        None \<Rightarrow> ziel\<lparr>verspaetung_ab := verspaetung_an ziel\<rparr>
      | Some plan_an \<Rightarrow>
          let plan_ab = (case ab ziel of Some t \<Rightarrow> t | None \<Rightarrow> plan_an);
              ankunft = plan_an + verspaetung_an ziel;
              abfahrt = max ankunft simzeit_minuten
          in ziel\<lparr>verspaetung_ab := abfahrt - plan_ab\<rparr>)"

text \<open>\<open>PlanmaessigeAbfahrt.anwenden\<close>.\<close>

definition PlanmaessigeAbfahrt_anwenden :: "zugziel \<Rightarrow> zugziel" where
  "PlanmaessigeAbfahrt_anwenden ziel =
     (case an ziel of
        None \<Rightarrow> ziel\<lparr>verspaetung_ab := verspaetung_an ziel\<rparr>
      | Some plan_an \<Rightarrow>
          let plan_ab = (case ab ziel of Some t \<Rightarrow> t
                         | None \<Rightarrow> plan_an + mindestaufenthalt ziel);
              ankunft = plan_an + verspaetung_an ziel;
              aufenthalt = max (plan_ab - ankunft) (mindestaufenthalt ziel);
              abfahrt = ankunft + aufenthalt
          in ziel\<lparr>verspaetung_ab := abfahrt - plan_ab\<rparr>)"

text \<open>
  The head of \<open>AnkunftAbwarten.anwenden\<close> and \<open>AbfahrtAbwarten.anwenden\<close>: the planned
  times of the row. With both times absent, \<open>plan_an + ziel.mindestaufenthalt\<close> adds an
  integer to \<open>None\<close>, a \<open>TypeError\<close> that no handler of the method catches.
\<close>

definition abwarten_planzeiten :: "zugziel \<Rightarrow> error + (int \<times> int)" where
  "abwarten_planzeiten ziel =
     (case ab ziel of
        Some plan_ab \<Rightarrow>
          (case an ziel of Some plan_an \<Rightarrow> Inr (plan_an, plan_ab)
           | None \<Rightarrow> Inr (plan_ab, plan_ab))
      | None \<Rightarrow>
          (case an ziel of Some plan_an \<Rightarrow> Inr (plan_an, plan_an + mindestaufenthalt ziel)
           | None \<Rightarrow> Inl TypeError))"

text \<open>
  \<open>AnkunftAbwarten.anwenden\<close>; \<open>ursprung\<close> is the row \<open>self.ursprung\<close> refers to, \<open>None\<close>
  when the attribute is \<open>None\<close> (reading \<open>.an\<close> of it raises \<open>AttributeError\<close>).
\<close>

definition AnkunftAbwarten_anwenden :: "zugziel option \<Rightarrow> int \<Rightarrow> zugziel \<Rightarrow> error + zugziel" where
  "AnkunftAbwarten_anwenden ursprung wartezeit ziel =
     (case abwarten_planzeiten ziel of
        Inl e \<Rightarrow> Inl e
      | Inr (plan_an, plan_ab) \<Rightarrow>
          let ankunft = plan_an + verspaetung_an ziel;
              aufenthalt = max (plan_ab - ankunft) (mindestaufenthalt ziel)
          in (case ursprung of
                None \<Rightarrow> Inl AttributeError
              | Some u \<Rightarrow>
                  (case an u of
                     None \<Rightarrow> Inl AttributeError
                   | Some u_an \<Rightarrow>
                       let anschluss_an = u_an + verspaetung_an u;
                           anschluss_ab = anschluss_an + wartezeit;
                           abfahrt = max (ankunft + aufenthalt) anschluss_ab
                       in Inr (ziel\<lparr>verspaetung_ab := abfahrt - plan_ab\<rparr>))))"

text \<open>\<open>AbfahrtAbwarten.anwenden\<close>.\<close>

definition AbfahrtAbwarten_anwenden :: "zugziel option \<Rightarrow> int \<Rightarrow> zugziel \<Rightarrow> error + zugziel" where
  "AbfahrtAbwarten_anwenden ursprung wartezeit ziel =
     (case abwarten_planzeiten ziel of
        Inl e \<Rightarrow> Inl e
      | Inr (plan_an, plan_ab) \<Rightarrow>
          let ankunft = plan_an + verspaetung_an ziel;
              aufenthalt = max (plan_ab - ankunft) (mindestaufenthalt ziel)
          in (case ursprung of
                None \<Rightarrow> Inl AttributeError
              | Some u \<Rightarrow>
                  (case ab u of
                     None \<Rightarrow> Inl AttributeError
                   | Some u_ab \<Rightarrow>
                       let anschluss_ab = u_ab + verspaetung_ab u + wartezeit;
                           abfahrt = max (ankunft + aufenthalt) anschluss_ab
                       in Inr (ziel\<lparr>verspaetung_ab := abfahrt - plan_ab\<rparr>))))"

text \<open>
  The loop of \<open>Kupplung.anwenden\<close>,
  \<^verbatim>\<open>while abs(kuppel_an - (plan_an + ziel.verspaetung_an)) < 2: ziel.verspaetung_an += 1\<close>,
  as a function of \<open>kuppel_an\<close>, \<open>plan_an\<close> and the arrival delay; it returns the arrival
  delay the loop leaves.
\<close>

function kupplung_schleife :: "int \<Rightarrow> int \<Rightarrow> int \<Rightarrow> int" where
  "kupplung_schleife kuppel_an plan_an v =
     (if \<bar>kuppel_an - (plan_an + v)\<bar> < 2
      then kupplung_schleife kuppel_an plan_an (v + 1)
      else v)"
  by pat_completeness auto
termination
  by (relation "measure (\<lambda>(kuppel_an, plan_an, v). nat (kuppel_an - (plan_an + v) + 2))") auto

text \<open>The number of times the loop body runs.\<close>

function kupplung_durchlaeufe :: "int \<Rightarrow> int \<Rightarrow> int \<Rightarrow> nat" where
  "kupplung_durchlaeufe kuppel_an plan_an v =
     (if \<bar>kuppel_an - (plan_an + v)\<bar> < 2
      then Suc (kupplung_durchlaeufe kuppel_an plan_an (v + 1))
      else 0)"
  by pat_completeness auto
termination
  by (relation "measure (\<lambda>(kuppel_an, plan_an, v). nat (kuppel_an - (plan_an + v) + 2))") auto

declare kupplung_schleife.simps [simp del]
declare kupplung_durchlaeufe.simps [simp del]

section \<open>Trains, graphs and the state of \<open>Planung\<close>\<close>

text \<open>
  \<open>ZugDetails\<close> (module stsobj), with the rows of the timetable as a parameter: the
  simulator sends \<open>FahrplanZeile\<close> rows, the planning module keeps \<open>ZugZielPlanung\<close> rows.
  A string attribute that is \<open>None\<close> is the empty string (both are false in a condition).
\<close>

record 'z zugdetails =
  zid :: int
  name :: string
  von :: string
  nach :: string
  zug_hinweistext :: string
  usertext :: string
  usertextsender :: string
  zug_gleis :: string
  plangleis :: string
  sichtbar :: bool
  amgleis :: bool
  verspaetung :: int
  fahrplan :: "'z list"
  ziel_index :: "int option"

text \<open>\<open>ZugDetailsPlanung(ZugDetails)\<close>.\<close>

record zug = "zugziel zugdetails" +
  ausgefahren :: bool
  folgezuege_aufgeloest :: bool
  korrekturen_definiert :: bool

text \<open>\<open>ZugZielNode\<close>: \<open>(typ, zid, plangleis)\<close>.\<close>

type_synonym zugzielnode = "string \<times> int \<times> string"

text \<open>The attributes \<open>_zielgraph_erstellen\<close> gives a node of the target graph.\<close>

record knoten =
  k_typ :: string
  obj :: zielref
  k_zid :: int
  k_zielnr :: int
  k_plan :: string
  p_an :: int
  p_ab :: int
  t_an :: int
  t_ab :: int
  v_an :: int
  v_ab :: int

text \<open>
  The attributes of \<open>Planung\<close>. A networkx graph is its node dictionary (in insertion
  order; a node that \<open>add_edge\<close> created has no attributes: \<open>None\<close>) and its edge
  dictionary. \<open>zugliste\<close>, \<open>zugstamm\<close> and \<open>zugbaum_ungerichtet\<close> are views derived from
  \<open>zugbaum\<close> and \<open>zielindex_plan\<close> is a lookup index of weak references; none of them
  is read by the methods modelled here, and they are left out.

  \<open>nx.topological_sort\<close> returns a generator, and \<open>_zielgraph_erstellen\<close> stores it in
  \<open>zielsortierung\<close> as it is (\<open>_zugbaum_analysieren\<close> copies the other one into a list).
  \<open>zielsortierung\<close> is the list of the nodes the generator has not yielded yet, and
  \<open>zielsortierung_zyklus\<close> tells whether it raises \<open>NetworkXUnfeasible\<close> once they are
  used up, as it does for a graph with a cycle.
\<close>

record planung =
  zugbaum_nodes :: "(int \<times> zug option) list"
  zugbaum_edges :: "((int \<times> int) \<times> (string \<times> int)) list"
  zugsortierung :: "int list"
  zielgraph_nodes :: "(zugzielnode \<times> knoten option) list"
  zielgraph_edges :: "((zugzielnode \<times> zugzielnode) \<times> string) list"
  zielsortierung :: "zugzielnode list"
  zielsortierung_zyklus :: bool
  simzeit_minuten :: int

text \<open>\<open>Planung.__init__\<close>.\<close>

definition Planung :: planung where
  "Planung = \<lparr>zugbaum_nodes = [], zugbaum_edges = [], zugsortierung = [],
     zielgraph_nodes = [], zielgraph_edges = [], zielsortierung = [],
     zielsortierung_zyklus = False, simzeit_minuten = 0\<rparr>"

text \<open>\<open>self.zugbaum.nodes[zid]['obj']\<close>; \<open>None\<close> stands for the \<open>KeyError\<close>.\<close>

definition zug_von :: "planung \<Rightarrow> int \<Rightarrow> zug option" where
  "zug_von st z = (case map_of (zugbaum_nodes st) z of Some (Some zug) \<Rightarrow> Some zug | _ \<Rightarrow> None)"

text \<open>An assignment to attributes of the train object with the zid \<open>z\<close>.\<close>

definition zug_aendern :: "planung \<Rightarrow> int \<Rightarrow> (zug \<Rightarrow> zug) \<Rightarrow> planung" where
  "zug_aendern st z f =
     st\<lparr>zugbaum_nodes := map (\<lambda>(k, d). if k = z then (k, map_option f d) else (k, d))
                            (zugbaum_nodes st)\<rparr>"

text \<open>The row object a reference names.\<close>

definition ziel_von :: "planung \<Rightarrow> zielref \<Rightarrow> zugziel option" where
  "ziel_von st r =
     (case zug_von st (fst r) of
        None \<Rightarrow> None
      | Some zug \<Rightarrow> if snd r < length (fahrplan zug) then Some (fahrplan zug ! snd r) else None)"

text \<open>An assignment to attributes of a row object.\<close>

definition ziel_aendern :: "planung \<Rightarrow> zielref \<Rightarrow> (zugziel \<Rightarrow> zugziel) \<Rightarrow> planung" where
  "ziel_aendern st r f =
     zug_aendern st (fst r)
       (\<lambda>zug. if snd r < length (fahrplan zug)
               then zug\<lparr>fahrplan := (fahrplan zug)[snd r := f (fahrplan zug ! snd r)]\<rparr>
               else zug)"

text \<open>An assignment to attributes of a node of the target graph.\<close>

definition knoten_setzen :: "planung \<Rightarrow> zugzielnode \<Rightarrow> (knoten \<Rightarrow> knoten) \<Rightarrow> planung" where
  "knoten_setzen st node f =
     st\<lparr>zielgraph_nodes := map (\<lambda>(n, d). if n = node then (n, map_option f d) else (n, d))
                              (zielgraph_nodes st)\<rparr>"

text \<open>The attributes of a node of the target graph, \<open>self.zielgraph.nodes[node]\<close>.\<close>

definition knoten_von :: "planung \<Rightarrow> zugzielnode \<Rightarrow> knoten option" where
  "knoten_von st node =
     (case map_of (zielgraph_nodes st) node of Some (Some data) \<Rightarrow> Some data | _ \<Rightarrow> None)"

text \<open>
  \<open>ZugDetails.find_fahrplan_index(plan=...)\<close> is defined in stsobj. Modelled from its
  call sites in planung.py, which test the result against \<open>None\<close>: the index of the
  first row with that plan track, \<open>None\<close> when there is none.
\<close>

primrec find_fahrplan_index :: "string \<Rightarrow> 'a fahrplanzeile_scheme list \<Rightarrow> nat option" where
  "find_fahrplan_index p [] = None"
| "find_fahrplan_index p (z # zs) =
     (if plan z = p then Some 0 else map_option Suc (find_fahrplan_index p zs))"

section \<open>Corrections that involve other trains\<close>

text \<open>
  A method either returns, leaving a new state, or raises an exception; the state the
  exception leaves is kept, because a handler further up may catch it and go on.
\<close>

type_synonym ergebnis = "(error \<times> planung) + planung"

text \<open>
  \<open>minutes_to_time\<close> is defined in stsobj. Planned times are \<open>datetime.time\<close> objects,
  kept here as their minute of the day; modelled as building the \<open>datetime.time\<close> of a
  minute of the day, which raises \<open>ValueError\<close> (\<open>None\<close>) outside of a day.
\<close>

definition minutes_to_time :: "int \<Rightarrow> int option" where
  "minutes_to_time m = (if 0 \<le> m \<and> m < 1440 then Some m else None)"

text \<open>
  \<open>Ersatzzug.anwenden\<close>. \<open>korr\<close> is \<open>self._planung.zugverspaetung_korrigieren\<close>, which
  ignores its argument and runs \<open>verspaetungen_korrigieren\<close>.
\<close>

definition Ersatzzug_anwenden :: "(planung \<Rightarrow> ergebnis) \<Rightarrow> zielref \<Rightarrow> planung \<Rightarrow> ergebnis" where
  "Ersatzzug_anwenden korr r st =
     (case ziel_von st r of
        None \<Rightarrow> Inl (KeyError, st)
      | Some ziel \<Rightarrow>
          (case an ziel of
             None \<Rightarrow> Inr (ziel_aendern st r (\<lambda>z. z\<lparr>verspaetung_ab := verspaetung_an z\<rparr>))
           | Some plan_an \<Rightarrow>
               let ersatz = (case ersatzzug ziel of None \<Rightarrow> None | Some e \<Rightarrow> zug_von st e);
                   ersatz_an = (case ersatz of
                                  None \<Rightarrow> None
                                | Some ez \<Rightarrow> (case fahrplan ez of [] \<Rightarrow> None | z0 # zs \<Rightarrow> an z0));
                   plan_ab = (case ersatz_an of
                                Some t \<Rightarrow> t
                              | None \<Rightarrow> (case ab ziel of Some t \<Rightarrow> t
                                         | None \<Rightarrow> plan_an + mindestaufenthalt ziel));
                   ankunft = plan_an + verspaetung_an ziel;
                   aufenthalt = max (plan_ab - ankunft) (mindestaufenthalt ziel);
                   abfahrt = ankunft + aufenthalt;
                   st1 = ziel_aendern st r (\<lambda>z. z\<lparr>verspaetung_ab := abfahrt - plan_ab\<rparr>)
               in (case minutes_to_time (abfahrt - (abfahrt - plan_ab)) of
                     None \<Rightarrow> Inl (ValueError, st1)
                   | Some t \<Rightarrow>
                       let st2 = ziel_aendern st1 r (\<lambda>z. z\<lparr>ab := Some t\<rparr>)
                       in (case ersatzzug ziel of
                             None \<Rightarrow> Inr st2
                           | Some e \<Rightarrow>
                               (case zug_von st2 e of
                                  None \<Rightarrow> Inr st2
                                | Some ez \<Rightarrow>
                                    korr (zug_aendern st2 e
                                            (\<lambda>z. z\<lparr>verspaetung := abfahrt - plan_ab\<rparr>)))))))"

text \<open>
  The \<open>try\<close> block of \<open>Kupplung.anwenden\<close> that computes \<open>kuppel_an\<close>. Its handler
  catches \<open>AttributeError\<close> and \<open>IndexError\<close>, also those that the propagation it starts
  raises. When the partner has no row at the plan track, \<open>find_fahrplan_index\<close> returns
  \<open>None\<close> and indexing the list with it raises \<open>TypeError\<close>.
\<close>

definition kuppel_an_berechnen ::
  "(planung \<Rightarrow> ergebnis) \<Rightarrow> zielref \<Rightarrow> planung \<Rightarrow> (error \<times> planung) + (int \<times> planung)" where
  "kuppel_an_berechnen korr r st =
     (case korr st of
        Inl (e, st1) \<Rightarrow>
          if e = AttributeError \<or> e = IndexError then Inr (0, st1) else Inl (e, st1)
      | Inr st1 \<Rightarrow>
          (case ziel_von st1 r of
             None \<Rightarrow> Inl (KeyError, st1)
           | Some ziel \<Rightarrow>
               (case (case kuppelzug ziel of None \<Rightarrow> None | Some k \<Rightarrow> zug_von st1 k) of
                  None \<Rightarrow> Inr (0, st1)
                | Some kz \<Rightarrow>
                    (case find_fahrplan_index (plan ziel) (fahrplan kz) of
                       None \<Rightarrow> Inl (TypeError, st1)
                     | Some kuppel_index \<Rightarrow>
                         let kuppel_ziel = fahrplan kz ! kuppel_index;
                             kuppel_verspaetung = verspaetung_an kuppel_ziel
                         in (case an kuppel_ziel of
                               None \<Rightarrow> Inr (0, st1)
                             | Some t \<Rightarrow> Inr (t + kuppel_verspaetung, st1))))))"

text \<open>\<open>Kupplung.anwenden\<close>.\<close>

definition Kupplung_anwenden :: "(planung \<Rightarrow> ergebnis) \<Rightarrow> zielref \<Rightarrow> planung \<Rightarrow> ergebnis" where
  "Kupplung_anwenden korr r st =
     (case ziel_von st r of
        None \<Rightarrow> Inl (KeyError, st)
      | Some ziel \<Rightarrow>
          (case an ziel of
             None \<Rightarrow> Inr (ziel_aendern st r (\<lambda>z. z\<lparr>verspaetung_ab := verspaetung_an z\<rparr>))
           | Some plan_an \<Rightarrow>
               let plan_ab = (case ab ziel of Some t \<Rightarrow> t
                              | None \<Rightarrow> plan_an + mindestaufenthalt ziel)
               in (case kuppel_an_berechnen korr r st of
                     Inl e \<Rightarrow> Inl e
                   | Inr (kuppel_an, st1) \<Rightarrow>
                       let st2 = ziel_aendern st1 r
                             (\<lambda>z. z\<lparr>verspaetung_an :=
                                      kupplung_schleife kuppel_an plan_an (verspaetung_an z)\<rparr>);
                           st3 = ziel_aendern st2 r
                             (\<lambda>z. let ankunft = plan_an + verspaetung_an z;
                                      aufenthalt = max (plan_ab - ankunft) (mindestaufenthalt z);
                                      abfahrt = max (ankunft + aufenthalt) kuppel_an
                                  in z\<lparr>verspaetung_ab := abfahrt - plan_ab\<rparr>)
                       in (case ziel_von st3 r of
                             None \<Rightarrow> Inl (KeyError, st3)
                           | Some ziel3 \<Rightarrow>
                               (case (case kuppelzug ziel3 of None \<Rightarrow> None
                                      | Some k \<Rightarrow> zug_von st3 k) of
                                  None \<Rightarrow> Inr st3
                                | Some kz \<Rightarrow> korr st3)))))"

text \<open>\<open>Fluegelung.anwenden\<close>.\<close>

definition Fluegelung_anwenden :: "(planung \<Rightarrow> ergebnis) \<Rightarrow> zielref \<Rightarrow> planung \<Rightarrow> ergebnis" where
  "Fluegelung_anwenden korr r st =
     (case ziel_von st r of
        None \<Rightarrow> Inl (KeyError, st)
      | Some ziel \<Rightarrow>
          (case an ziel of
             None \<Rightarrow> Inr (ziel_aendern st r (\<lambda>z. z\<lparr>verspaetung_ab := verspaetung_an z\<rparr>))
           | Some plan_an \<Rightarrow>
               let plan_ab = (case ab ziel of Some t \<Rightarrow> t
                              | None \<Rightarrow> plan_an + mindestaufenthalt ziel);
                   ankunft = plan_an + verspaetung_an ziel;
                   aufenthalt = max (plan_ab - ankunft) (mindestaufenthalt ziel);
                   abfahrt = ankunft + aufenthalt;
                   st1 = ziel_aendern st r (\<lambda>z. z\<lparr>verspaetung_ab := abfahrt - plan_ab\<rparr>)
               in (case fluegelzug ziel of
                     None \<Rightarrow> Inr st1
                   | Some f \<Rightarrow>
                       (case zug_von st1 f of
                          None \<Rightarrow> Inr st1
                        | Some fz \<Rightarrow>
                            let st2 = zug_aendern st1 f
                                        (\<lambda>z. z\<lparr>verspaetung := verspaetung_an ziel\<rparr>)
                            in (case fahrplan fz of
                                  [] \<Rightarrow> Inl (IndexError, st2)
                                | z0 # zs \<Rightarrow>
                                    korr (ziel_aendern st2 (f, 0)
                                            (\<lambda>z. z\<lparr>verspaetung_an := verspaetung_an ziel\<rparr>)))))))"

text \<open>A correction that reads and writes one row only, applied to the row in the state.\<close>

definition zeile_anwenden :: "(zugziel \<Rightarrow> error + zugziel) \<Rightarrow> zielref \<Rightarrow> planung \<Rightarrow> ergebnis" where
  "zeile_anwenden f r st =
     (case ziel_von st r of
        None \<Rightarrow> Inl (KeyError, st)
      | Some ziel \<Rightarrow>
          (case f ziel of
             Inl e \<Rightarrow> Inl (e, st)
           | Inr ziel' \<Rightarrow> Inr (ziel_aendern st r (\<lambda>z. ziel'))))"

text \<open>The call \<open>korrektur.anwenden(zug, ziel)\<close>, dispatched on the class of the object.\<close>

definition korrektur_anwenden ::
  "(planung \<Rightarrow> ergebnis) \<Rightarrow> korrektur \<Rightarrow> zielref \<Rightarrow> planung \<Rightarrow> ergebnis" where
  "korrektur_anwenden korr k r st =
     (case k of
        VerspaetungsKorrektur \<Rightarrow> zeile_anwenden (\<lambda>z. Inr (VerspaetungsKorrektur_anwenden z)) r st
      | FesteVerspaetung v \<Rightarrow> zeile_anwenden (\<lambda>z. Inr (FesteVerspaetung_anwenden v z)) r st
      | Signalhalt v \<Rightarrow> zeile_anwenden (\<lambda>z. Inr (FesteVerspaetung_anwenden v z)) r st
      | Einfahrtszeit \<Rightarrow>
          zeile_anwenden (\<lambda>z. Inr (Einfahrtszeit_anwenden (simzeit_minuten st) z)) r st
      | PlanmaessigeAbfahrt \<Rightarrow> zeile_anwenden (\<lambda>z. Inr (PlanmaessigeAbfahrt_anwenden z)) r st
      | AnkunftAbwarten u w \<Rightarrow>
          zeile_anwenden
            (AnkunftAbwarten_anwenden (case u of None \<Rightarrow> None | Some ur \<Rightarrow> ziel_von st ur) w) r st
      | AbfahrtAbwarten u w \<Rightarrow>
          zeile_anwenden
            (AbfahrtAbwarten_anwenden (case u of None \<Rightarrow> None | Some ur \<Rightarrow> ziel_von st ur) w) r st
      | Ersatzzug \<Rightarrow> Ersatzzug_anwenden korr r st
      | Kupplung \<Rightarrow> Kupplung_anwenden korr r st
      | Fluegelung \<Rightarrow> Fluegelung_anwenden korr r st)"

section \<open>The propagation sweep\<close>

text \<open>
  The attribute dictionary of an edge of the target graph holds the key \<open>typ\<close> only
  (\<open>add_edge(u, v, typ=...)\<close>); reading another key raises \<open>KeyError\<close>, here \<open>None\<close>.
\<close>

definition kante_attribut :: "string \<Rightarrow> string \<Rightarrow> int option" where
  "kante_attribut typ_der_kante schluessel = None"

text \<open>
  \<open>[pred_data['v_ab'] for pred, pred_data in self.zielgraph.pred[node].items()]\<close>.
  \<open>self.zielgraph.pred[node]\<close> maps each predecessor to the attribute dictionary of
  the edge from it, not to the attributes of the predecessor node, so \<open>pred_data\<close> is
  the dictionary of an edge. \<open>None\<close> stands for the \<open>KeyError\<close> of the subscript.
\<close>

definition vorgaenger_v_ab :: "planung \<Rightarrow> zugzielnode \<Rightarrow> int list option" where
  "vorgaenger_v_ab st node =
     those (map (\<lambda>((pred, n), pred_data). kante_attribut pred_data ''v_ab'')
              (filter (\<lambda>((pred, n), pred_data). n = node) (zielgraph_edges st)))"

text \<open>
  The first half of the loop body of \<open>verspaetungen_korrigieren\<close>, up to
  \<open>data['v_an'] = v_an\<close>.
\<close>

definition ankunft_korrigieren :: "zugzielnode \<Rightarrow> knoten \<Rightarrow> planung \<Rightarrow> ergebnis" where
  "ankunft_korrigieren node data st =
     (case ziel_von st (obj data) of
        None \<Rightarrow> Inl (KeyError, st)
      | Some ziel \<Rightarrow>
          (case zug_von st (fst (obj data)) of
             None \<Rightarrow> Inl (KeyError, st)
           | Some zug \<Rightarrow>
               if \<not> wahr (angekommen ziel) then
                 (case vorgaenger_v_ab st node of
                    None \<Rightarrow> Inl (KeyError, st)
                  | Some v \<Rightarrow>
                      if einfahrt ziel \<or> plangleis zug = plan ziel \<or> length v = 0 then
                        let st1 = ziel_aendern st (obj data)
                                    (\<lambda>z. z\<lparr>verspaetung_an := verspaetung zug\<rparr>)
                        in Inr (knoten_setzen st1 node
                                  (\<lambda>d. d\<lparr>v_an := Max (set (v @ [verspaetung zug]))\<rparr>))
                      else Inr (knoten_setzen st node (\<lambda>d. d\<lparr>v_an := Max (set v)\<rparr>)))
               else Inr (knoten_setzen st node (\<lambda>d. d\<lparr>v_an := verspaetung_an ziel\<rparr>))))"

text \<open>The second half: \<open>if not ziel.abgefahren: ...\<close>.\<close>

definition abfahrt_korrigieren :: "(planung \<Rightarrow> ergebnis) \<Rightarrow> zielref \<Rightarrow> planung \<Rightarrow> ergebnis" where
  "abfahrt_korrigieren korr r st =
     (case ziel_von st r of
        None \<Rightarrow> Inl (KeyError, st)
      | Some ziel \<Rightarrow>
          if \<not> wahr (abgefahren ziel) then
            (case fdl_korrektur ziel of
               Some k \<Rightarrow> korrektur_anwenden korr k r st
             | None \<Rightarrow>
                 (case auto_korrektur ziel of
                    Some k \<Rightarrow> korrektur_anwenden korr k r st
                  | None \<Rightarrow>
                      Inr (ziel_aendern st r (\<lambda>z. z\<lparr>verspaetung_ab := verspaetung_an z\<rparr>))))
          else Inr st)"

text \<open>The body of the loop \<open>for node in self.zielsortierung\<close>.\<close>

definition knoten_korrigieren ::
  "(planung \<Rightarrow> ergebnis) \<Rightarrow> zugzielnode \<Rightarrow> planung \<Rightarrow> ergebnis" where
  "knoten_korrigieren korr node st =
     (case map_of (zielgraph_nodes st) node of
        None \<Rightarrow> Inl (KeyError, st)
      | Some None \<Rightarrow> Inl (KeyError, st)
      | Some (Some data) \<Rightarrow>
          (case ankunft_korrigieren node data st of
             Inl e \<Rightarrow> Inl e
           | Inr st1 \<Rightarrow>
               (case abfahrt_korrigieren korr (obj data) st1 of
                  Inl e \<Rightarrow> Inl e
                | Inr st2 \<Rightarrow>
                    (case ziel_von st2 (obj data) of
                       None \<Rightarrow> Inl (KeyError, st2)
                     | Some ziel \<Rightarrow>
                         Inr (knoten_setzen st2 node (\<lambda>d. d\<lparr>v_ab := verspaetung_ab ziel\<rparr>))))))"

text \<open>The generator is used up: it raises once if the graph had a cycle.\<close>

definition zielsortierung_ende :: "planung \<Rightarrow> ergebnis" where
  "zielsortierung_ende st =
     (if zielsortierung_zyklus st
      then Inl (NetworkXUnfeasible, st\<lparr>zielsortierung_zyklus := False\<rparr>)
      else Inr st)"

text \<open>
  \<open>verspaetungen_korrigieren\<close> with a bound on the number of loop iterations and nested
  calls still allowed. The loop takes the next node from the generator; a correction
  that calls \<open>zugverspaetung_korrigieren\<close> runs the same loop on the same generator, so
  the nested call uses up the remaining nodes and the outer loop ends after its
  current node.
\<close>

primrec verspaetungen_korrigieren_tiefe :: "nat \<Rightarrow> planung \<Rightarrow> ergebnis" where
  "verspaetungen_korrigieren_tiefe 0 st =
     (case zielsortierung st of
        [] \<Rightarrow> zielsortierung_ende st
      | node # rest \<Rightarrow> Inl (RecursionError, st))"
| "verspaetungen_korrigieren_tiefe (Suc n) st =
     (case zielsortierung st of
        [] \<Rightarrow> zielsortierung_ende st
      | node # rest \<Rightarrow>
          (case knoten_korrigieren (verspaetungen_korrigieren_tiefe n) node
                  (st\<lparr>zielsortierung := rest\<rparr>) of
             Inl e \<Rightarrow> Inl e
           | Inr st' \<Rightarrow> verspaetungen_korrigieren_tiefe n st'))"

text \<open>
  \<open>Planung.verspaetungen_korrigieren\<close>: every iteration and every nested call takes a
  node from the generator or finds it empty, so the number of remaining nodes is bound
  enough (\<open>verspaetungen_korrigieren_tiefe_genug\<close> below).
\<close>

definition verspaetungen_korrigieren :: "planung \<Rightarrow> ergebnis" where
  "verspaetungen_korrigieren st =
     verspaetungen_korrigieren_tiefe (length (zielsortierung st)) st"

section \<open>Taking over the trains of the simulator\<close>

text \<open>\<open>str.startswith\<close>.\<close>

definition startswith :: "string \<Rightarrow> string \<Rightarrow> bool" where
  "startswith s p = (take (length p) s = p)"

text \<open>\<open>s.replace(alt, "")\<close> for a non-empty \<open>alt\<close>.\<close>

function str_replace_leer :: "string \<Rightarrow> string \<Rightarrow> string" where
  "str_replace_leer alt [] = []"
| "str_replace_leer alt (c # cs) =
     (if alt \<noteq> [] \<and> take (length alt) (c # cs) = alt
      then str_replace_leer alt (drop (length alt) (c # cs))
      else c # str_replace_leer alt cs)"
  by pat_completeness auto
termination
  by (relation "measure (\<lambda>(alt, s). length s)") auto

text \<open>
  A loop whose body may raise: the bodies of the loops below return the new state or
  the exception that ends the method.
\<close>

primrec schleife :: "('a \<Rightarrow> 's \<Rightarrow> error + 's) \<Rightarrow> 'a list \<Rightarrow> 's \<Rightarrow> error + 's" where
  "schleife f [] st = Inr st"
| "schleife f (x # xs) st = (case f x st of Inl e \<Rightarrow> Inl e | Inr st' \<Rightarrow> schleife f xs st')"

text \<open>
  A fresh \<open>ZugDetailsPlanung()\<close>; the attributes of the base class start empty and
  \<open>ziel_index\<close> is unset.
\<close>

definition ZugDetailsPlanung :: zug where
  "ZugDetailsPlanung =
     \<lparr>zid = 0, name = [], von = [], nach = [], zug_hinweistext = [], usertext = [],
      usertextsender = [], zug_gleis = [], plangleis = [], sichtbar = False, amgleis = False,
      verspaetung = 0, fahrplan = [], ziel_index = None,
      ausgefahren = False, folgezuege_aufgeloest = False, korrekturen_definiert = False\<rparr>"

text \<open>\<open>ZugZielPlanung.assign_fahrplan_zeile\<close>.\<close>

definition assign_fahrplan_zeile :: "zugziel \<Rightarrow> fahrplanzeile \<Rightarrow> zugziel" where
  "assign_fahrplan_zeile ziel zeile =
     ziel\<lparr>gleis := gleis zeile, plan := plan zeile, an := an zeile, ab := ab zeile,
          ersatz_zid := ersatz_zid zeile, kuppel_zid := kuppel_zid zeile,
          fluegel_zid := fluegel_zid zeile, durchfahrt := durchfahrt zeile,
          richtungswechsel := richtungswechsel zeile, lokumlauf := lokumlauf zeile,
          lokwechsel := lokwechsel zeile, hinweistext := hinweistext zeile,
          ersatzzug := None, fluegelzug := None, kuppelzug := None\<rparr>"

text \<open>
  The last part of \<open>assign_zug_details\<close>: a train that is visible when it is first seen
  is placed on its timetable. \<open>fahrplan[0:ziel_index]\<close> is all rows but the last for
  the index \<open>-1\<close>, and \<open>fahrplan[ziel_index]\<close> raises \<open>IndexError\<close> on an empty list.
\<close>

definition startaufstellung :: "fahrplanzeile zugdetails \<Rightarrow> zug \<Rightarrow> error + zug" where
  "startaufstellung zug self =
     (let fp = fahrplan self;
          ziel_index = find_fahrplan_index (plangleis zug) fp;
          n = (case ziel_index of Some i \<Rightarrow> i | None \<Rightarrow> length fp - 1);
          fp1 = map (\<lambda>ziel. ziel\<lparr>abgefahren := Wahr, angekommen := Wahr,
                                  verspaetung_ab := verspaetung zug,
                                  verspaetung_an := verspaetung zug\<rparr>) (take n fp)
                @ drop n fp
      in if amgleis zug then
           (if fp = [] then Inl IndexError
            else Inr (self\<lparr>fahrplan := fp1[n := (fp1 ! n)\<lparr>angekommen := Wahr,
                                                 verspaetung_an := verspaetung zug\<rparr>]\<rparr>))
         else Inr (self\<lparr>fahrplan := fp1\<rparr>))"

text \<open>\<open>ZugDetailsPlanung.assign_zug_details\<close>, applied to a fresh object.\<close>

definition assign_zug_details :: "fahrplanzeile zugdetails \<Rightarrow> error + zug" where
  "assign_zug_details zug =
     (let self_von = (if von zug \<noteq> [] then str_replace_leer ''Gleis '' (von zug) else []);
          self_nach = (if nach zug \<noteq> [] then str_replace_leer ''Gleis '' (nach zug) else []);
          einfahrten =
            (if \<not> sichtbar zug \<and> self_von \<noteq> [] \<and> \<not> startswith (von zug) ''Gleis''
             then [(ZugZielPlanung (zid zug))
                     \<lparr>plan := self_von, gleis := self_von,
                      an := (case fahrplan zug of [] \<Rightarrow> None | z # zs \<Rightarrow> an z),
                      ab := (case fahrplan zug of [] \<Rightarrow> None | z # zs \<Rightarrow> an z),
                      einfahrt := True\<rparr>]
             else []);
          zeilen = map (assign_fahrplan_zeile (ZugZielPlanung (zid zug))) (fahrplan zug);
          ausfahrten =
            (if self_nach \<noteq> [] \<and> \<not> startswith (nach zug) ''Gleis''
             then [(ZugZielPlanung (zid zug))
                     \<lparr>plan := self_nach, gleis := self_nach,
                      an := (if fahrplan zug = [] then None else ab (last (fahrplan zug))),
                      ab := (if fahrplan zug = [] then None else ab (last (fahrplan zug))),
                      ausfahrt := True\<rparr>]
             else []);
          fp = map (\<lambda>(n, z). z\<lparr>zielnr := int n * 1000\<rparr>)
                 (enumerate 0 (einfahrten @ zeilen @ ausfahrten));
          self = ZugDetailsPlanung
                   \<lparr>zid := zid zug, name := name zug, von := self_von, nach := self_nach,
                    zug_hinweistext := zug_hinweistext zug, fahrplan := fp\<rparr>
      in if sichtbar zug then startaufstellung zug self else Inr self)"

text \<open>
  \<open>ZugDetailsPlanung.update_zug_details\<close> for a \<open>ZugDetails\<close> object.
  \<open>find_fahrplanzeile(plan=...)\<close> (module stsobj) is the row at \<open>find_fahrplan_index\<close>.
\<close>

definition update_zug_details :: "zug \<Rightarrow> fahrplanzeile zugdetails \<Rightarrow> zug" where
  "update_zug_details self zug =
     (let self1 = (if zug_gleis zug \<noteq> []
                   then self\<lparr>zug_gleis := zug_gleis zug, plangleis := plangleis zug\<rparr>
                   else self\<lparr>zug_gleis := nach self, plangleis := nach self\<rparr>);
          self2 = self1\<lparr>verspaetung := verspaetung zug, amgleis := amgleis zug,
                        sichtbar := sichtbar zug, usertext := usertext zug,
                        usertextsender := usertextsender zug\<rparr>;
          fp = fold (\<lambda>zeile fp.
                       case find_fahrplan_index (plan zeile) fp of
                         None \<Rightarrow> fp
                       | Some i \<Rightarrow> fp[i := (fp ! i)\<lparr>gleis := gleis zeile\<rparr>])
                    (fahrplan zug) (fahrplan self2);
          self3 = self2\<lparr>fahrplan := fp\<rparr>
      in (case find_fahrplan_index (plangleis zug) fp of
            Some i \<Rightarrow> self3\<lparr>ziel_index := Some (int i)\<rparr>
          | None \<Rightarrow> if plangleis zug = [] then self3\<lparr>ziel_index := Some (- 1)\<rparr> else self3))"

text \<open>\<open>self.zugbaum.add_node(zid, obj=zug)\<close>.\<close>

definition zugbaum_add_node :: "int \<Rightarrow> zug \<Rightarrow> planung \<Rightarrow> planung" where
  "zugbaum_add_node z zug st = st\<lparr>zugbaum_nodes := AList.update z (Some zug) (zugbaum_nodes st)\<rparr>"

text \<open>\<open>add_edge\<close> of a networkx graph: the end points become nodes if they are none yet.\<close>

definition knoten_ergaenzen :: "'n \<Rightarrow> ('n \<times> 'd option) list \<Rightarrow> ('n \<times> 'd option) list" where
  "knoten_ergaenzen n nodes = (if n \<in> fst ` set nodes then nodes else nodes @ [(n, None)])"

definition zugbaum_add_edge :: "int \<Rightarrow> int \<Rightarrow> string \<Rightarrow> int \<Rightarrow> planung \<Rightarrow> planung" where
  "zugbaum_add_edge u v flag nr st =
     st\<lparr>zugbaum_nodes := knoten_ergaenzen v (knoten_ergaenzen u (zugbaum_nodes st)),
        zugbaum_edges := AList.update (u, v) (flag, nr) (zugbaum_edges st)\<rparr>"

definition zielgraph_add_node :: "zugzielnode \<Rightarrow> knoten \<Rightarrow> planung \<Rightarrow> planung" where
  "zielgraph_add_node n data st =
     st\<lparr>zielgraph_nodes := AList.update n (Some data) (zielgraph_nodes st)\<rparr>"

definition zielgraph_add_edge :: "zugzielnode \<Rightarrow> zugzielnode \<Rightarrow> string \<Rightarrow> planung \<Rightarrow> planung" where
  "zielgraph_add_edge u v t st =
     st\<lparr>zielgraph_nodes := knoten_ergaenzen v (knoten_ergaenzen u (zielgraph_nodes st)),
        zielgraph_edges := AList.update (u, v) t (zielgraph_edges st)\<rparr>"

text \<open>
  \<open>Planung._zugziel_node\<close>; the optional arguments are \<open>None\<close> when left out.
  \<open>int(zielnr / 1000)\<close> rounds towards zero.
\<close>

definition zugziel_node ::
  "zugziel \<Rightarrow> string option \<Rightarrow> int option \<Rightarrow> string option \<Rightarrow> zugzielnode" where
  "zugziel_node ziel plangleis_arg zid_arg typ_arg =
     (let t = (case typ_arg of
                 Some t \<Rightarrow> t
               | None \<Rightarrow>
                   if einfahrt ziel then ''E''
                   else if ausfahrt ziel then ''A''
                   else if zielnr ziel >
                           (if 0 \<le> zielnr ziel then zielnr ziel div 1000
                            else - ((- zielnr ziel) div 1000)) * 1000 then ''B''
                   else if durchfahrt ziel then ''D''
                   else ''H'');
          p = (case plangleis_arg of Some p \<Rightarrow> p | None \<Rightarrow> plan ziel);
          z = (case zid_arg of Some z \<Rightarrow> z | None \<Rightarrow> zug_zid ziel)
      in (t, z, p))"

text \<open>The truth value of an optional zid: \<open>None\<close> and \<open>0\<close> are false.\<close>

definition zid_wahr :: "int option \<Rightarrow> int option" where
  "zid_wahr z = (case z of None \<Rightarrow> None | Some n \<Rightarrow> if n = 0 then None else Some n)"

text \<open>
  The body of the inner loop of \<open>_zielgraph_erstellen\<close> for the row \<open>i\<close> of the train
  \<open>zid2\<close>; \<open>zzid1\<close> is the node of the row before it in the same train. With both planned
  times absent \<open>plan_an + zug.verspaetung\<close> adds an integer to \<open>None\<close>. No edge is
  tested before it is added.
\<close>

definition zielgraph_zeile ::
  "int \<Rightarrow> zug \<Rightarrow> zugzielnode option \<Rightarrow> nat \<Rightarrow> planung \<Rightarrow> error + planung" where
  "zielgraph_zeile zid2 zug zzid1 i st =
     (let ziel2 = fahrplan zug ! i;
          zzid2 = zugziel_node ziel2 None None None;
          plan_ab = (case ab ziel2 of Some t \<Rightarrow> Some t | None \<Rightarrow> an ziel2);
          plan_an = (case an ziel2 of Some t \<Rightarrow> Some t | None \<Rightarrow> plan_ab)
      in (case (plan_an, plan_ab) of
            (Some pan, Some pab) \<Rightarrow>
              let st1 = zielgraph_add_node zzid2
                          \<lparr>k_typ = fst zzid2, obj = (zid2, i), k_zid = zug_zid ziel2,
                           k_zielnr = zielnr ziel2, k_plan = plan ziel2,
                           p_an = pan, p_ab = pab,
                           t_an = pan + verspaetung zug, t_ab = pab + verspaetung zug,
                           v_an = verspaetung zug, v_ab = verspaetung zug\<rparr> st;
                  st2 = (case zzid1 of
                           Some n1 \<Rightarrow> zielgraph_add_edge n1 zzid2 ''P'' st1
                         | None \<Rightarrow> st1);
                  st3 = (case zid_wahr (ersatz_zid ziel2) of
                           Some z \<Rightarrow>
                             zugbaum_add_edge zid2 z ''E'' (zielnr ziel2)
                               (zielgraph_add_edge zzid2
                                  (zugziel_node ziel2 None (Some z) (Some ''H'')) ''E'' st2)
                         | None \<Rightarrow> st2);
                  st4 = (case zid_wahr (kuppel_zid ziel2) of
                           Some z \<Rightarrow>
                             zugbaum_add_edge zid2 z ''K'' (zielnr ziel2)
                               (zielgraph_add_edge zzid2
                                  (zugziel_node ziel2 None (Some z) (Some ''H'')) ''K'' st3)
                         | None \<Rightarrow> st3);
                  st5 = (case zid_wahr (fluegel_zid ziel2) of
                           Some z \<Rightarrow>
                             zugbaum_add_edge zid2 z ''F'' (zielnr ziel2)
                               (zielgraph_add_edge zzid2
                                  (zugziel_node ziel2 None (Some z) (Some ''H'')) ''F'' st4)
                         | None \<Rightarrow> st4);
                  ursprung = (case fdl_korrektur ziel2 of
                                Some (AnkunftAbwarten (Some u) w) \<Rightarrow> ziel_von st5 u
                              | Some (AbfahrtAbwarten (Some u) w) \<Rightarrow> ziel_von st5 u
                              | _ \<Rightarrow> None)
              in Inr (case ursprung of
                        Some u \<Rightarrow> zielgraph_add_edge (zugziel_node u None None None) zzid2 ''A'' st5
                      | None \<Rightarrow> st5)
          | _ \<Rightarrow> Inl TypeError))"

text \<open>The inner loop \<open>for ziel2 in zug.fahrplan\<close>; the rows are read from the train
  as it is when the loop starts, and the loop writes to the graphs only.\<close>

primrec zielgraph_zeilen ::
  "int \<Rightarrow> zug \<Rightarrow> zugzielnode option \<Rightarrow> nat list \<Rightarrow> planung \<Rightarrow> error + planung" where
  "zielgraph_zeilen zid2 zug zzid1 [] st = Inr st"
| "zielgraph_zeilen zid2 zug zzid1 (i # is) st =
     (case zielgraph_zeile zid2 zug zzid1 i st of
        Inl e \<Rightarrow> Inl e
      | Inr st' \<Rightarrow>
          zielgraph_zeilen zid2 zug
            (Some (zugziel_node (fahrplan zug ! i) None None None)) is st')"

text \<open>
  The result of \<open>nx.topological_sort\<close> for a graph given by its nodes and edges: the
  nodes the generator yields and whether it raises \<open>NetworkXUnfeasible\<close> after them.
  networkx is not part of the sources; the methods below take the function as a
  parameter.
\<close>

type_synonym 'n topological_sort = "'n list \<Rightarrow> ('n \<times> 'n) list \<Rightarrow> 'n list \<times> bool"

text \<open>
  \<open>Planung._zielgraph_erstellen\<close>. The generator is stored without being run, so the
  handler for \<open>NetworkXUnfeasible\<close> around the assignment never sees the exception.
\<close>

definition zielgraph_erstellen ::
  "zugzielnode topological_sort \<Rightarrow> planung \<Rightarrow> error + planung" where
  "zielgraph_erstellen ts st =
     (case schleife
             (\<lambda>(zid2, d) st'.
                case d of
                  None \<Rightarrow> Inr st'
                | Some zug \<Rightarrow> zielgraph_zeilen zid2 zug None [0..<length (fahrplan zug)] st')
             (zugbaum_nodes st) st of
        Inl e \<Rightarrow> Inl e
      | Inr st' \<Rightarrow>
          let s = ts (map fst (zielgraph_nodes st')) (map fst (zielgraph_edges st'))
          in Inr (st'\<lparr>zielsortierung := fst s, zielsortierung_zyklus := snd s\<rparr>))"

text \<open>
  \<open>self.zugbaum.edges(data=True)\<close>: the edges by source node, in the order of the nodes.
\<close>

definition zugbaum_edges_geordnet :: "planung \<Rightarrow> ((int \<times> int) \<times> (string \<times> int)) list" where
  "zugbaum_edges_geordnet st =
     concat (map (\<lambda>(n, d). filter (\<lambda>((u, v), a). u = n) (zugbaum_edges st)) (zugbaum_nodes st))"

text \<open>
  \<open>ZugDetailsPlanung.find_fahrplan_zielnr\<close>, as the position of the row; \<open>None\<close> stands
  for the \<open>ValueError\<close>.
\<close>

primrec find_fahrplan_zielnr :: "int \<Rightarrow> zugziel list \<Rightarrow> nat option" where
  "find_fahrplan_zielnr nr [] = None"
| "find_fahrplan_zielnr nr (z # zs) =
     (if zielnr z = nr then Some 0 else map_option Suc (find_fahrplan_zielnr nr zs))"

text \<open>
  \<open>Planung._folgezuege_aufloesen\<close>. The handler catches \<open>KeyError\<close> only, so the
  \<open>ValueError\<close> of \<open>find_fahrplan_zielnr\<close> ends the method.
\<close>

definition folgezuege_aufloesen :: "planung \<Rightarrow> error + planung" where
  "folgezuege_aufloesen st =
     schleife
       (\<lambda>((zid1, zid2), (flag, nr)) st'.
          case zug_von st' zid1 of
            None \<Rightarrow> Inr st'
          | Some zug1 \<Rightarrow>
              (case find_fahrplan_zielnr nr (fahrplan zug1) of
                 None \<Rightarrow> Inl ValueError
               | Some i \<Rightarrow>
                   let zug2 = (case zug_von st' zid2 of None \<Rightarrow> None | Some z \<Rightarrow> Some zid2)
                   in Inr (if flag = ''E''
                           then ziel_aendern st' (zid1, i) (\<lambda>z. z\<lparr>ersatzzug := zug2\<rparr>)
                           else if flag = ''K''
                           then ziel_aendern st' (zid1, i) (\<lambda>z. z\<lparr>kuppelzug := zug2\<rparr>)
                           else if flag = ''F''
                           then ziel_aendern st' (zid1, i) (\<lambda>z. z\<lparr>fluegelzug := zug2\<rparr>)
                           else st')))
       (zugbaum_edges_geordnet st) st"

text \<open>
  \<open>Planung._zugbaum_analysieren\<close>: \<open>list(nx.topological_sort(...))\<close> runs the generator,
  so a cycle in the train graph raises here.
\<close>

definition zugbaum_analysieren :: "int topological_sort \<Rightarrow> planung \<Rightarrow> error + planung" where
  "zugbaum_analysieren ts st =
     (let s = ts (map fst (zugbaum_nodes st)) (map fst (zugbaum_edges st))
      in if snd s then Inl NetworkXUnfeasible else Inr (st\<lparr>zugsortierung := fst s\<rparr>))"

text \<open>
  \<open>Planung.ziel_korrekturen_definieren\<close>; the result is the returned flag and the new
  state.
\<close>

definition ziel_korrekturen_definieren :: "zielref \<Rightarrow> planung \<Rightarrow> bool \<times> planung" where
  "ziel_korrekturen_definieren r st =
     (case ziel_von st r of
        None \<Rightarrow> (True, st)
      | Some ziel0 \<Rightarrow>
          let st1 = (if richtungswechsel ziel0
                     then ziel_aendern st r (\<lambda>z. z\<lparr>mindestaufenthalt := 2\<rparr>)
                     else if lokumlauf ziel0
                     then ziel_aendern st r (\<lambda>z. z\<lparr>mindestaufenthalt := 2\<rparr>)
                     else if lokwechsel ziel0
                     then ziel_aendern st r (\<lambda>z. z\<lparr>mindestaufenthalt := 5\<rparr>)
                     else st)
          in if einfahrt ziel0
             then (True, ziel_aendern st1 r (\<lambda>z. z\<lparr>auto_korrektur := Some Einfahrtszeit\<rparr>))
             else if ausfahrt ziel0 then (True, st1)
             else if durchfahrt ziel0 then (True, st1)
             else if zid_wahr (ersatz_zid ziel0) \<noteq> None then
               (let st2 = ziel_aendern st1 r
                            (\<lambda>z. z\<lparr>auto_korrektur := Some Ersatzzug,
                                   mindestaufenthalt := max (mindestaufenthalt z) 1\<rparr>)
                in (case ersatzzug ziel0 of
                      None \<Rightarrow> (False, st2)
                    | Some e \<Rightarrow>
                        (case zug_von st2 e of
                           None \<Rightarrow> (False, st2)
                         | Some ez \<Rightarrow>
                             if fahrplan ez = [] then (False, st2)
                             else (True, ziel_aendern st2 (e, 0)
                                           (\<lambda>z. z\<lparr>auto_korrektur :=
                                                    Some (AnkunftAbwarten (Some r) 0)\<rparr>)))))
             else if zid_wahr (kuppel_zid ziel0) \<noteq> None then
               (let st2 = ziel_aendern st1 r
                            (\<lambda>z. z\<lparr>auto_korrektur := Some Kupplung,
                                   mindestaufenthalt := max (mindestaufenthalt z) 1\<rparr>)
                in (case kuppelzug ziel0 of
                      None \<Rightarrow> (False, st2)
                    | Some k \<Rightarrow>
                        (case zug_von st2 k of
                           None \<Rightarrow> (False, st2)
                         | Some kz \<Rightarrow>
                             (case find_fahrplan_index (plan ziel0) (fahrplan kz) of
                                None \<Rightarrow> (False, st2)
                              | Some i \<Rightarrow>
                                  (True, ziel_aendern st2 (k, i)
                                           (\<lambda>z. z\<lparr>auto_korrektur :=
                                                    Some (AnkunftAbwarten (Some r) 0)\<rparr>))))))
             else if zid_wahr (fluegel_zid ziel0) \<noteq> None then
               (let st2 = ziel_aendern st1 r
                            (\<lambda>z. z\<lparr>auto_korrektur := Some Fluegelung,
                                   mindestaufenthalt := max (mindestaufenthalt z) 1\<rparr>)
                in (case fluegelzug ziel0 of
                      None \<Rightarrow> (False, st2)
                    | Some f \<Rightarrow>
                        (case zug_von st2 f of
                           None \<Rightarrow> (False, st2)
                         | Some fz \<Rightarrow>
                             if fahrplan fz = [] then (False, st2)
                             else (True, ziel_aendern st2 (f, 0)
                                           (\<lambda>z. z\<lparr>auto_korrektur :=
                                                    Some (AbfahrtAbwarten (Some r) 2)\<rparr>)))))
             else if auto_korrektur ziel0 = None
             then (True, ziel_aendern st1 r (\<lambda>z. z\<lparr>auto_korrektur := Some PlanmaessigeAbfahrt\<rparr>))
             else (True, st1))"

text \<open>\<open>Planung.zug_korrekturen_definieren\<close> for the train with the zid \<open>z\<close>.\<close>

definition zug_korrekturen_definieren :: "int \<Rightarrow> planung \<Rightarrow> bool \<times> planung" where
  "zug_korrekturen_definieren z st =
     (case zug_von st z of
        None \<Rightarrow> (True, st)
      | Some zug \<Rightarrow>
          fold (\<lambda>i (result, st').
                  let (ziel_result, st'') = ziel_korrekturen_definieren (z, i) st'
                  in (result \<and> ziel_result, st''))
               [0..<length (fahrplan zug)] (True, st))"

text \<open>\<open>Planung.korrekturen_definieren\<close>, over the trains \<open>self.zuege()\<close> yields.\<close>

definition korrekturen_definieren :: "planung \<Rightarrow> planung" where
  "korrekturen_definieren st =
     fold (\<lambda>z st'.
             case zug_von st' z of
               None \<Rightarrow> st'
             | Some zug \<Rightarrow>
                 if \<not> korrekturen_definiert zug then
                   (let (result, st'') = zug_korrekturen_definieren z st'
                    in zug_aendern st'' z
                         (\<lambda>zug'. zug'\<lparr>korrekturen_definiert :=
                                       folgezuege_aufgeloest zug' \<and> result\<rparr>))
                 else st')
          (zugsortierung st) st"

text \<open>The body of the first loop of \<open>zuege_uebernehmen\<close>.\<close>

definition zug_uebernehmen :: "fahrplanzeile zugdetails \<Rightarrow> planung \<Rightarrow> error + planung" where
  "zug_uebernehmen zug st =
     (case zug_von st (zid zug) of
        None \<Rightarrow>
          (case assign_zug_details zug of
             Inl e \<Rightarrow> Inl e
           | Inr zug_planung \<Rightarrow>
               Inr (zugbaum_add_node (zid zug) (update_zug_details zug_planung zug) st))
      | Some zug_planung \<Rightarrow>
          Inr (zugbaum_add_node (zid zug) (update_zug_details zug_planung zug) st))"

text \<open>
  The second loop of \<open>zuege_uebernehmen\<close>, over the zids that were nodes of the train
  graph before the first loop and are not in the snapshot.
\<close>

definition ausgefahrene_markieren :: "int list \<Rightarrow> planung \<Rightarrow> planung" where
  "ausgefahrene_markieren ausgefahrene_zuege st =
     fold (\<lambda>z st'.
             case zug_von st' z of
               None \<Rightarrow> st'
             | Some zug \<Rightarrow>
                 if sichtbar zug then
                   zug_aendern st' z
                     (\<lambda>zug. zug\<lparr>sichtbar := False, amgleis := False,
                                zug_gleis := [], plangleis := [], ausgefahren := True,
                                fahrplan := map (\<lambda>zeile. zeile\<lparr>abgefahren :=
                                                                 oder_wahr (abgefahren zeile)\<rparr>)
                                              (fahrplan zug)\<rparr>)
                 else st')
          ausgefahrene_zuege st"

text \<open>\<open>Planung.zuege_uebernehmen\<close>.\<close>

definition zuege_uebernehmen ::
  "int topological_sort \<Rightarrow> zugzielnode topological_sort \<Rightarrow>
   fahrplanzeile zugdetails list \<Rightarrow> planung \<Rightarrow> error + planung" where
  "zuege_uebernehmen ts_zug ts_ziel zuege st =
     (let ausgefahrene_zuege =
            filter (\<lambda>z. z \<notin> set (map zid zuege)) (map fst (zugbaum_nodes st))
      in (case schleife zug_uebernehmen zuege st of
            Inl e \<Rightarrow> Inl e
          | Inr st1 \<Rightarrow>
              (case zielgraph_erstellen ts_ziel (ausgefahrene_markieren ausgefahrene_zuege st1) of
                 Inl e \<Rightarrow> Inl e
               | Inr st2 \<Rightarrow>
                   (case folgezuege_aufloesen st2 of
                      Inl e \<Rightarrow> Inl e
                    | Inr st3 \<Rightarrow>
                        (case zugbaum_analysieren ts_zug st3 of
                           Inl e \<Rightarrow> Inl e
                         | Inr st4 \<Rightarrow> Inr (korrekturen_definieren st4))))))"

text \<open>
  The order of \<open>nx.topological_sort\<close> as networkx computes it (by
  \<open>topological_generations\<close>), for running the methods on concrete inputs. The first
  generation are the nodes without predecessor, in the order of the nodes. Visiting
  the nodes of a generation in turn, and for each its successors in the order of its
  edges, takes one from the count of unvisited predecessors of the successor and
  puts it into the next generation when the count reaches zero. The generator raises
  \<open>NetworkXUnfeasible\<close> at the end if nodes are left over.
\<close>

definition kind_besuchen :: "'n \<Rightarrow> ('n \<Rightarrow> nat) \<times> 'n list \<Rightarrow> ('n \<Rightarrow> nat) \<times> 'n list" where
  "kind_besuchen child =
     (\<lambda>(indegree_map, zero_indegree).
        let d = indegree_map child - 1
        in (indegree_map(child := d),
            if d = 0 then zero_indegree @ [child] else zero_indegree))"

primrec topological_generations ::
  "nat \<Rightarrow> ('n \<times> 'n) list \<Rightarrow> ('n \<Rightarrow> nat) \<Rightarrow> 'n list \<Rightarrow> 'n list" where
  "topological_generations 0 es indegree_map this_generation = []"
| "topological_generations (Suc k) es indegree_map this_generation =
     (if this_generation = [] then []
      else (case fold (\<lambda>node. fold kind_besuchen (map snd (filter (\<lambda>(a, b). a = node) es)))
                   this_generation (indegree_map, []) of
              (indegree_map', zero_indegree) \<Rightarrow>
                this_generation @ topological_generations k es indegree_map' zero_indegree))"

definition topological_sort :: "'n topological_sort" where
  "topological_sort ns es =
     (let l = topological_generations (length ns) es
                (\<lambda>n. length (filter (\<lambda>(a, b). b = n) es))
                (filter (\<lambda>n. n \<notin> snd ` set es) ns)
      in (l, length l < length ns))"

section \<open>Dispatcher corrections and events\<close>

text \<open>
  \<open>Planung.fdl_korrektur_setzen\<close> for a row object of this planning; \<open>None + 1\<close> raises
  \<open>TypeError\<close>.
\<close>

definition fdl_korrektur_setzen :: "korrektur option \<Rightarrow> zielref \<Rightarrow> planung \<Rightarrow> error + planung" where
  "fdl_korrektur_setzen korrektur r st =
     (case ziel_von st r of
        None \<Rightarrow> Inl KeyError
      | Some ziel \<Rightarrow>
          (case zug_von st (fst r) of
             None \<Rightarrow> Inl KeyError
           | Some zug \<Rightarrow>
               let st1 = ziel_aendern st r (\<lambda>z. z\<lparr>fdl_korrektur := korrektur\<rparr>)
               in (case korrektur of
                     None \<Rightarrow> Inr st1
                   | Some k \<Rightarrow>
                       (case find_fahrplan_index (plan ziel) (fahrplan zug) of
                          None \<Rightarrow> Inl TypeError
                        | Some idx \<Rightarrow>
                            Inr (zug_aendern st1 (fst r)
                                   (\<lambda>zug. zug\<lparr>fahrplan :=
                                      take (idx + 1) (fahrplan zug)
                                      @ map (\<lambda>z. z\<lparr>fdl_korrektur := None\<rparr>)
                                          (drop (idx + 1) (fahrplan zug))\<rparr>))))))"

text \<open>
  \<open>Ereignis\<close> (module stsobj) has the attributes of \<open>ZugDetails\<close> except the user text and
  the timetable, and the kind and time of the event. The time is kept as its minute,
  which is what \<open>time_to_minutes\<close> reads from it.
\<close>

record ereignis = "fahrplanzeile zugdetails" +
  art :: string
  zeit :: int

text \<open>\<open>xs[i]\<close> for a Python integer: the position, \<open>None\<close> for the \<open>IndexError\<close>.\<close>

definition py_index :: "int \<Rightarrow> 'a list \<Rightarrow> nat option" where
  "py_index i xs =
     (if 0 \<le> i then (if i < int (length xs) then Some (nat i) else None)
      else (if 0 \<le> int (length xs) + i then Some (nat (int (length xs) + i)) else None))"

text \<open>\<open>xs[0:i]\<close> as the number of elements it takes.\<close>

definition py_slice_bis :: "int \<Rightarrow> 'a list \<Rightarrow> nat" where
  "py_slice_bis i xs = (if 0 \<le> i then nat i else nat (int (length xs) + i))"

text \<open>
  \<open>Planung.ereignis_uebernehmen\<close>. An unset \<open>ziel_index\<close> indexes the list with \<open>None\<close>
  (\<open>TypeError\<close>); a missing planned time under \<open>time_to_minutes\<close> raises
  \<open>AttributeError\<close>. Returning early leaves the state as it is.
\<close>

definition ereignis_uebernehmen :: "ereignis \<Rightarrow> planung \<Rightarrow> error + planung" where
  "ereignis_uebernehmen e st =
     (case zug_von st (zid e) of
        None \<Rightarrow> Inr st
      | Some zug \<Rightarrow>
          (case ziel_index zug of
             None \<Rightarrow> Inl TypeError
           | Some alter_index \<Rightarrow>
               (case py_index alter_index (fahrplan zug) of
                  None \<Rightarrow> Inr st
                | Some alt \<Rightarrow>
                    (case (if plangleis e \<noteq> []
                           then map_option int (find_fahrplan_index (plangleis e) (fahrplan zug))
                           else Some (int (length (fahrplan zug)) - 1)) of
                       None \<Rightarrow> Inr st
                     | Some neuer_index \<Rightarrow>
                         if neuer_index < alter_index then Inr st
                         else if art e = ''einfahrt'' then
                           (if einfahrt (fahrplan zug ! 0) then
                              (case ab (fahrplan zug ! 0) of
                                 None \<Rightarrow> Inl AttributeError
                               | Some t \<Rightarrow>
                                   Inr (ziel_aendern st (zid e, 0)
                                          (\<lambda>z. z\<lparr>verspaetung_ab := zeit e - t,
                                                 angekommen := Zeitpunkt (zeit e),
                                                 abgefahren := Zeitpunkt (zeit e)\<rparr>)))
                            else Inr st)
                         else if art e = ''ausfahrt'' then
                           (if ausfahrt (last (fahrplan zug)) then
                              Inr (zug_aendern
                                     (ziel_aendern st (zid e, length (fahrplan zug) - 1)
                                        (\<lambda>z. z\<lparr>verspaetung_an := verspaetung e,
                                               verspaetung_ab := verspaetung e,
                                               angekommen := Zeitpunkt (zeit e),
                                               abgefahren := Zeitpunkt (zeit e)\<rparr>))
                                     (zid e) (\<lambda>zug. zug\<lparr>ausgefahren := True\<rparr>))
                            else Inr st)
                         else if art e = ''ankunft'' then
                           (case an (fahrplan zug ! alt) of
                              None \<Rightarrow> Inl AttributeError
                            | Some t \<Rightarrow>
                                let st1 = ziel_aendern st (zid e, alt)
                                            (\<lambda>z. z\<lparr>verspaetung_an := zeit e - t,
                                                   angekommen := Zeitpunkt (zeit e)\<rparr>);
                                    st2 = (if durchfahrt (fahrplan zug ! alt)
                                           then ziel_aendern st1 (zid e, alt)
                                                  (\<lambda>z. z\<lparr>verspaetung_ab := verspaetung_an z,
                                                         abgefahren := Zeitpunkt (zeit e)\<rparr>)
                                           else st1)
                                in Inr (zug_aendern st2 (zid e)
                                          (\<lambda>zug. zug\<lparr>fahrplan :=
                                             map (\<lambda>z. z\<lparr>angekommen := oder_wahr (angekommen z),
                                                        abgefahren := oder_wahr (abgefahren z)\<rparr>)
                                               (take (py_slice_bis alter_index (fahrplan zug))
                                                  (fahrplan zug))
                                             @ drop (py_slice_bis alter_index (fahrplan zug))
                                                 (fahrplan zug)\<rparr>)))
                         else if art e = ''abfahrt'' then
                           (if amgleis e then
                              (if verspaetung e > 0
                               then Inr (ziel_aendern st (zid e, alt)
                                           (\<lambda>z. z\<lparr>auto_korrektur :=
                                                    Some (Signalhalt (verspaetung e))\<rparr>))
                               else Inr st)
                            else Inr (ziel_aendern st (zid e, alt)
                                        (\<lambda>z. z\<lparr>verspaetung_ab := verspaetung e,
                                               abgefahren := Zeitpunkt (zeit e)\<rparr>)))
                         else if art e = ''rothalt'' \<or> art e = ''wurdegruen'' then
                           Inr (ziel_aendern
                                  (zug_aendern st (zid e)
                                     (\<lambda>zug. zug\<lparr>verspaetung := verspaetung e\<rparr>))
                                  (zid e, nat neuer_index)
                                  (\<lambda>z. z\<lparr>verspaetung_an := verspaetung e\<rparr>))
                         else Inr st))))"

section \<open>Notions for the proofs\<close>

text \<open>
  A result of the sweep is in order for the state it started from when it is not the
  \<open>RecursionError\<close> of an exhausted bound and the generator has not grown.
\<close>

definition ok :: "planung \<Rightarrow> ergebnis \<Rightarrow> bool" where
  "ok st res = (case res of
       Inl (e, st') \<Rightarrow> e \<noteq> RecursionError \<and> length (zielsortierung st') \<le> length (zielsortierung st)
     | Inr st' \<Rightarrow> length (zielsortierung st') \<le> length (zielsortierung st))"

text \<open>A propagation function is in order on all states with at most \<open>L\<close> nodes left.\<close>

definition okk :: "nat \<Rightarrow> (planung \<Rightarrow> ergebnis) \<Rightarrow> bool" where
  "okk L korr = (\<forall>st. length (zielsortierung st) \<le> L \<longrightarrow> ok st (korr st))"

text \<open>Two propagation functions agree on all states with at most \<open>L\<close> nodes left.\<close>

definition agree :: "nat \<Rightarrow> (planung \<Rightarrow> ergebnis) \<Rightarrow> (planung \<Rightarrow> ergebnis) \<Rightarrow> bool" where
  "agree L k1 k2 = (\<forall>st. length (zielsortierung st) \<le> L \<longrightarrow> k1 st = k2 st)"

text \<open>
  A train is marked as gone: it has left the system, is neither visible nor at a
  platform, has no current and no planned track, and all its rows are departed.
\<close>

definition markiert :: "zug \<Rightarrow> bool" where
  "markiert zug \<longleftrightarrow>
     ausgefahren zug \<and> \<not> sichtbar zug \<and> \<not> amgleis zug \<and> zug_gleis zug = [] \<and> plangleis zug = []
     \<and> list_all (\<lambda>ziel. wahr (abgefahren ziel)) (fahrplan zug)"

definition markiert_in :: "planung \<Rightarrow> int \<Rightarrow> bool" where
  "markiert_in st z = (case zug_von st z of None \<Rightarrow> False | Some zug \<Rightarrow> markiert zug)"

text \<open>Chaining steps that may raise.\<close>

definition dann :: "error + 'a \<Rightarrow> ('a \<Rightarrow> error + 'b) \<Rightarrow> error + 'b" where
  "dann m f = (case m of Inl e \<Rightarrow> Inl e | Inr x \<Rightarrow> f x)"

section \<open>Concrete inputs\<close>

text \<open>A row and a train as the simulator sends them, without flags and texts.\<close>

definition FahrplanZeile :: "int \<Rightarrow> string \<Rightarrow> int option \<Rightarrow> int option \<Rightarrow> fahrplanzeile" where
  "FahrplanZeile z p a b =
     \<lparr>zug_zid = z, plan = p, gleis = p, an = a, ab = b,
      ersatz_zid = None, kuppel_zid = None, fluegel_zid = None,
      durchfahrt = False, richtungswechsel = False, lokumlauf = False, lokwechsel = False,
      hinweistext = [], ersatzzug = None, kuppelzug = None, fluegelzug = None\<rparr>"

definition ZugDetails ::
  "int \<Rightarrow> string \<Rightarrow> string \<Rightarrow> string \<Rightarrow> bool \<Rightarrow> bool \<Rightarrow> int \<Rightarrow> fahrplanzeile list
   \<Rightarrow> fahrplanzeile zugdetails" where
  "ZugDetails z v n g s a d fp =
     \<lparr>zid = z, name = [], von = v, nach = n, zug_hinweistext = [], usertext = [],
      usertextsender = [], zug_gleis = g, plangleis = g, sichtbar = s, amgleis = a,
      verspaetung = d, fahrplan = fp, ziel_index = None\<rparr>"

text \<open>
  Scenario S1: train 100 comes from outside (\<open>X\<close>), is not visible yet, is planned at
  track 1 from 10:00 to 10:02 and leaves to \<open>Y\<close>; it has no delay.
\<close>

definition zug_100 :: "fahrplanzeile zugdetails" where
  "zug_100 = ZugDetails 100 ''X'' ''Y'' ''1'' False False 0
               [FahrplanZeile 100 ''1'' (Some 600) (Some 602)]"

definition planung_100 :: "error + planung" where
  "planung_100 = zuege_uebernehmen topological_sort topological_sort [zug_100] Planung"

text \<open>What a caller sees of the result of an ingestion: a row, a train, the edges.\<close>

definition zeile_in :: "error + planung \<Rightarrow> zielref \<Rightarrow> zugziel option" where
  "zeile_in m r = (case m of Inl e \<Rightarrow> None | Inr st \<Rightarrow> ziel_von st r)"

definition zug_in :: "error + planung \<Rightarrow> int \<Rightarrow> zug option" where
  "zug_in m z = (case m of Inl e \<Rightarrow> None | Inr st \<Rightarrow> zug_von st z)"

definition kanten_in :: "error + planung \<Rightarrow> (zugzielnode \<times> zugzielnode) list" where
  "kanten_in m = (case m of Inl e \<Rightarrow> [] | Inr st \<Rightarrow> map fst (zielgraph_edges st))"

text \<open>
  The state of a result. A call of the sweep at a minute of the simulator clock on
  the state of an ingestion; the exception it raises, if any; and the state it
  leaves behind, whether it returns or raises.
\<close>

definition zustand :: "error + planung \<Rightarrow> planung" where
  "zustand m = (case m of Inl e \<Rightarrow> Planung | Inr st \<Rightarrow> st)"

definition korrigieren_um :: "int \<Rightarrow> planung \<Rightarrow> ergebnis" where
  "korrigieren_um t st = verspaetungen_korrigieren (st\<lparr>simzeit_minuten := t\<rparr>)"

definition fehler :: "ergebnis \<Rightarrow> error option" where
  "fehler res = (case res of Inl (e, st) \<Rightarrow> Some e | Inr st \<Rightarrow> None)"

definition danach :: "ergebnis \<Rightarrow> planung" where
  "danach res = (case res of Inl (e, st) \<Rightarrow> st | Inr st \<Rightarrow> st)"


text \<open>
  Train 6 stands visible at track 1, planned there from 10:00 to 10:02 and on to \<open>Y\<close>.
  The simulator then reports its departure at 10:02 with the train still at the
  platform and without delay; or the train is not in the next snapshot.
\<close>

definition zug_6 :: "fahrplanzeile zugdetails" where
  "zug_6 = ZugDetails 6 ''Gleis 1'' ''Y'' ''1'' True True 0
             [FahrplanZeile 6 ''1'' (Some 600) (Some 602)]"

definition planung_6 :: "error + planung" where
  "planung_6 = zuege_uebernehmen topological_sort topological_sort [zug_6] Planung"

definition Ereignis :: "string \<Rightarrow> int \<Rightarrow> fahrplanzeile zugdetails \<Rightarrow> ereignis" where
  "Ereignis a t z = zugdetails.extend z \<lparr>art = a, zeit = t\<rparr>"

definition abfahrt_6 :: ereignis where
  "abfahrt_6 = Ereignis ''abfahrt'' 602 zug_6"


text \<open>The departure event of train 6 once it has left the platform, 3 minutes late.\<close>

definition abfahrt_6_frei :: ereignis where
  "abfahrt_6_frei = Ereignis ''abfahrt'' 602 (zug_6\<lparr>amgleis := False, verspaetung := 3\<rparr>)"

text \<open>
  Train 7 stands visible at track 2, 4 minutes late; it was planned at track 1 from
  9:50 to 9:52 and is planned at track 2 from 10:00 to 10:02, where it ends. The
  snapshot holds train 100 of scenario S1 and train 7.
\<close>

definition zug_7 :: "fahrplanzeile zugdetails" where
  "zug_7 = ZugDetails 7 ''Gleis 1'' ''Gleis 2'' ''2'' True True 4
             [FahrplanZeile 7 ''1'' (Some 590) (Some 592),
              FahrplanZeile 7 ''2'' (Some 600) (Some 602)]"

definition planung_100_7 :: "error + planung" where
  "planung_100_7 =
     zuege_uebernehmen topological_sort topological_sort [zug_100, zug_7] Planung"

text \<open>The state after one call of the sweep at 10:05, and after a second call.\<close>

definition planung_100_7_einmal :: planung where
  "planung_100_7_einmal = danach (korrigieren_um 605 (zustand planung_100_7))"

definition planung_100_7_zweimal :: planung where
  "planung_100_7_zweimal = danach (korrigieren_um 605 planung_100_7_einmal)"

text \<open>
  Train 1 stands at track 5, where it starts at 10:00 (its row has no planned
  arrival) and is renumbered to train 2. In the next snapshot train 1 is gone and
  train 2 stands at track 5, planned there from 10:05 to 10:10 and on to \<open>Y\<close>.
\<close>

definition zug_e1 :: "fahrplanzeile zugdetails" where
  "zug_e1 = ZugDetails 1 ''Gleis 5'' ''Gleis 5'' ''5'' True True 0
              [(FahrplanZeile 1 ''5'' None (Some 600))\<lparr>ersatz_zid := Some 2\<rparr>]"

definition zug_e2 :: "fahrplanzeile zugdetails" where
  "zug_e2 = ZugDetails 2 ''Gleis 5'' ''Y'' ''5'' True True 0
              [FahrplanZeile 2 ''5'' (Some 605) (Some 610)]"

definition planung_ersatz :: "error + planung" where
  "planung_ersatz =
     dann (zuege_uebernehmen topological_sort topological_sort [zug_e1] Planung)
       (zuege_uebernehmen topological_sort topological_sort [zug_e2])"

text \<open>
  Train 1 has arrived at track 5 at 10:30, where it ends and couples to train 2.
  Train 2 comes from \<open>W\<close>, is not visible yet and goes on to \<open>Y\<close>. In the first plan
  (scenario S4) it is planned at track 5 from 10:30 to 10:40, in the second at track
  6 only. In the third plan train 2 stands at track 5 as well and ends there.
\<close>

definition zug_k1 :: "fahrplanzeile zugdetails" where
  "zug_k1 = ZugDetails 1 ''Gleis 5'' ''Gleis 5'' ''5'' True True 0
              [(FahrplanZeile 1 ''5'' (Some 630) None)\<lparr>kuppel_zid := Some 2\<rparr>]"

definition zug_k2_S4 :: "fahrplanzeile zugdetails" where
  "zug_k2_S4 = ZugDetails 2 ''W'' ''Y'' ''5'' False False 0
                 [FahrplanZeile 2 ''5'' (Some 630) (Some 640)]"

definition planung_S4 :: "error + planung" where
  "planung_S4 =
     zuege_uebernehmen topological_sort topological_sort [zug_k1, zug_k2_S4] Planung"

definition zug_k2 :: "fahrplanzeile zugdetails" where
  "zug_k2 = ZugDetails 2 ''W'' ''Y'' ''6'' False False 0
              [FahrplanZeile 2 ''6'' (Some 630) (Some 640)]"

definition planung_kupplung :: "error + planung" where
  "planung_kupplung =
     zuege_uebernehmen topological_sort topological_sort [zug_k1, zug_k2] Planung"

definition zug_k2_da :: "fahrplanzeile zugdetails" where
  "zug_k2_da = ZugDetails 2 ''Gleis 5'' ''Gleis 5'' ''5'' True True 0
                 [FahrplanZeile 2 ''5'' (Some 630) (Some 640)]"

definition planung_kupplung_da :: "error + planung" where
  "planung_kupplung_da =
     zuege_uebernehmen topological_sort topological_sort [zug_k1, zug_k2_da] Planung"

text \<open>
  Trains 1 and 2 stand at tracks 1 and 2. The dispatcher lets each wait for the
  departure of the other; then the next snapshot is taken over.
\<close>

definition zug_a :: "fahrplanzeile zugdetails" where
  "zug_a = ZugDetails 1 ''Gleis 1'' ''Y'' ''1'' True True 0
             [FahrplanZeile 1 ''1'' (Some 600) (Some 602)]"

definition zug_b :: "fahrplanzeile zugdetails" where
  "zug_b = ZugDetails 2 ''Gleis 2'' ''Y'' ''2'' True True 0
             [FahrplanZeile 2 ''2'' (Some 600) (Some 602)]"

definition planung_gegenseitig :: "error + planung" where
  "planung_gegenseitig =
     dann (dann (dann (zuege_uebernehmen topological_sort topological_sort [zug_a, zug_b] Planung)
                   (fdl_korrektur_setzen (Some (AbfahrtAbwarten (Some (2, 0)) 0)) (1, 0)))
             (fdl_korrektur_setzen (Some (AbfahrtAbwarten (Some (1, 0)) 0)) (2, 0)))
       (zuege_uebernehmen topological_sort topological_sort [zug_a, zug_b])"

section \<open>Reading and writing the state\<close>

lemma map_of_map_key:
  "map_of (map (\<lambda>(k, d). if k = z then (k, g d) else (k, d)) xs) z' =
     (if z' = z then map_option g (map_of xs z) else map_of xs z')"
  by (induction xs) auto

lemma zug_von_zug_aendern:
  "zug_von (zug_aendern st z f) z' = (if z' = z then map_option f (zug_von st z) else zug_von st z')"
  by (auto simp: zug_von_def zug_aendern_def map_of_map_key split: option.splits)

lemma ziel_von_ziel_aendern:
  "ziel_von (ziel_aendern st r f) r' =
     (if r' = r then map_option f (ziel_von st r) else ziel_von st r')"
  by (cases r; cases r')
     (auto simp: ziel_von_def ziel_aendern_def zug_von_zug_aendern split: option.splits)

lemma ziel_von_zug_aendern:
  "\<forall>zug. fahrplan (f zug) = fahrplan zug \<Longrightarrow> ziel_von (zug_aendern st z f) r = ziel_von st r"
  by (auto simp: ziel_von_def zug_von_zug_aendern split: option.splits)

lemma zug_von_ziel_aendern_other:
  "z \<noteq> fst r \<Longrightarrow> zug_von (ziel_aendern st r f) z = zug_von st z"
  by (simp add: ziel_aendern_def zug_von_zug_aendern)

lemma zug_von_knoten_setzen [simp]: "zug_von (knoten_setzen st n f) z = zug_von st z"
  by (simp add: zug_von_def knoten_setzen_def)

lemma ziel_von_knoten_setzen [simp]: "ziel_von (knoten_setzen st n f) r = ziel_von st r"
  by (simp add: ziel_von_def)

lemma zielsortierung_zug_aendern [simp]:
  "zielsortierung (zug_aendern st z f) = zielsortierung st"
  "zielsortierung_zyklus (zug_aendern st z f) = zielsortierung_zyklus st"
  "zielgraph_nodes (zug_aendern st z f) = zielgraph_nodes st"
  "zielgraph_edges (zug_aendern st z f) = zielgraph_edges st"
  "simzeit_minuten (zug_aendern st z f) = simzeit_minuten st"
  by (simp_all add: zug_aendern_def)

lemma zielsortierung_ziel_aendern [simp]:
  "zielsortierung (ziel_aendern st r f) = zielsortierung st"
  "zielsortierung_zyklus (ziel_aendern st r f) = zielsortierung_zyklus st"
  "zielgraph_nodes (ziel_aendern st r f) = zielgraph_nodes st"
  "zielgraph_edges (ziel_aendern st r f) = zielgraph_edges st"
  "simzeit_minuten (ziel_aendern st r f) = simzeit_minuten st"
  by (simp_all add: ziel_aendern_def)

lemma zielsortierung_knoten_setzen [simp]:
  "zielsortierung (knoten_setzen st n f) = zielsortierung st"
  "zielsortierung_zyklus (knoten_setzen st n f) = zielsortierung_zyklus st"
  "zielgraph_edges (knoten_setzen st n f) = zielgraph_edges st"
  "simzeit_minuten (knoten_setzen st n f) = simzeit_minuten st"
  "zugbaum_nodes (knoten_setzen st n f) = zugbaum_nodes st"
  by (simp_all add: knoten_setzen_def)

section \<open>The bound of the sweep is enough\<close>

lemma ok_trans:
  "ok st1 res \<Longrightarrow> length (zielsortierung st1) \<le> length (zielsortierung st) \<Longrightarrow> ok st res"
  by (auto simp: ok_def split: sum.splits)

lemma okkD: "okk L korr \<Longrightarrow> length (zielsortierung st) \<le> L \<Longrightarrow> ok st (korr st)"
  by (simp add: okk_def)

lemma abwarten_planzeiten_err: "abwarten_planzeiten z = Inl e \<Longrightarrow> e = TypeError"
  by (auto simp: abwarten_planzeiten_def split: option.splits)

lemma AnkunftAbwarten_err: "AnkunftAbwarten_anwenden u w z = Inl e \<Longrightarrow> e \<noteq> RecursionError"
  by (auto simp: AnkunftAbwarten_anwenden_def Let_def dest: abwarten_planzeiten_err split: sum.splits option.splits prod.splits)

lemma AbfahrtAbwarten_err: "AbfahrtAbwarten_anwenden u w z = Inl e \<Longrightarrow> e \<noteq> RecursionError"
  by (auto simp: AbfahrtAbwarten_anwenden_def Let_def dest: abwarten_planzeiten_err split: sum.splits option.splits prod.splits)

lemma ok_Inl [simp]:
  "ok st (Inl (e, st')) = (e \<noteq> RecursionError \<and> length (zielsortierung st') \<le> length (zielsortierung st))"
  by (simp add: ok_def)

lemma ok_Inr [simp]:
  "ok st (Inr st') = (length (zielsortierung st') \<le> length (zielsortierung st))"
  by (simp add: ok_def)

lemma ok_korr:
  "okk L korr \<Longrightarrow> length (zielsortierung st) \<le> L \<Longrightarrow>
   length (zielsortierung st1) \<le> length (zielsortierung st) \<Longrightarrow> ok st (korr st1)"
  using okkD [of L korr st1] ok_trans [of st1 "korr st1" st] by simp

lemma ok_zeile:
  "(\<And>z e. f z = Inl e \<Longrightarrow> e \<noteq> RecursionError) \<Longrightarrow> ok st (zeile_anwenden f r st)"
  by (auto simp: zeile_anwenden_def split: option.splits sum.splits)

lemma ok_Ersatzzug:
  "okk L korr \<Longrightarrow> length (zielsortierung st) \<le> L \<Longrightarrow> ok st (Ersatzzug_anwenden korr r st)"
  unfolding Ersatzzug_anwenden_def Let_def
  by (simp split: option.splits) (auto intro!: ok_korr)

lemma ok_Fluegelung:
  "okk L korr \<Longrightarrow> length (zielsortierung st) \<le> L \<Longrightarrow> ok st (Fluegelung_anwenden korr r st)"
  unfolding Fluegelung_anwenden_def Let_def
  by (simp split: option.splits list.splits) (auto intro!: ok_korr)

lemma kuppel_an_ok:
  assumes "okk L korr" "length (zielsortierung st) \<le> L"
  shows "case kuppel_an_berechnen korr r st of
           Inl (e, st') \<Rightarrow> e \<noteq> RecursionError \<and> length (zielsortierung st') \<le> length (zielsortierung st)
         | Inr (k, st') \<Rightarrow> length (zielsortierung st') \<le> length (zielsortierung st)"
  using okkD [OF assms]
  by (auto simp: kuppel_an_berechnen_def ok_def Let_def split: sum.splits option.splits prod.splits)

lemma ok_Kupplung:
  assumes "okk L korr" "length (zielsortierung st) \<le> L"
  shows "ok st (Kupplung_anwenden korr r st)"
proof -
  note k = kuppel_an_ok [OF assms, of r]
  show ?thesis
    unfolding Kupplung_anwenden_def Let_def
    using k
    by (simp split: option.splits sum.splits prod.splits) (auto intro!: ok_korr [OF assms])
qed

lemma ok_korrektur:
  assumes "okk L korr" "length (zielsortierung st) \<le> L"
  shows "ok st (korrektur_anwenden korr k r st)"
  unfolding korrektur_anwenden_def
  by (cases k)
     (auto intro!: ok_zeile ok_Ersatzzug [OF assms] ok_Kupplung [OF assms] ok_Fluegelung [OF assms]
           dest: AnkunftAbwarten_err AbfahrtAbwarten_err)

lemma ok_ankunft: "ok st (ankunft_korrigieren node data st)"
  by (auto simp: ankunft_korrigieren_def Let_def split: option.splits)

lemma ok_abfahrt:
  assumes "okk L korr" "length (zielsortierung st) \<le> L"
  shows "ok st (abfahrt_korrigieren korr r st)"
  unfolding abfahrt_korrigieren_def
  by (auto split: option.splits intro!: ok_korrektur [OF assms])

lemma ok_knoten:
  assumes "okk L korr" "length (zielsortierung st) \<le> L"
  shows "ok st (knoten_korrigieren korr node st)"
proof (cases "map_of (zielgraph_nodes st) node")
  case None
  then show ?thesis by (simp add: knoten_korrigieren_def)
next
  case (Some d)
  show ?thesis
  proof (cases d)
    case None
    with Some show ?thesis by (simp add: knoten_korrigieren_def)
  next
    case (Some data)
    note d = \<open>map_of (zielgraph_nodes st) node = Some d\<close> Some
    have a: "ok st (ankunft_korrigieren node data st)" by (rule ok_ankunft)
    show ?thesis
    proof (cases "ankunft_korrigieren node data st")
      case (Inl x)
      then show ?thesis using a d by (cases x) (simp add: knoten_korrigieren_def)
    next
      case (Inr st1)
      then have l1: "length (zielsortierung st1) \<le> length (zielsortierung st)" using a by simp
      then have b: "ok st1 (abfahrt_korrigieren korr (obj data) st1)"
        using assms by (intro ok_abfahrt [OF assms(1)]) simp
      show ?thesis
      proof (cases "abfahrt_korrigieren korr (obj data) st1")
        case (Inl x)
        then show ?thesis using b d l1 \<open>ankunft_korrigieren node data st = Inr st1\<close>
          by (cases x) (simp add: knoten_korrigieren_def)
      next
        case (Inr st2)
        then show ?thesis using b d l1 \<open>ankunft_korrigieren node data st = Inr st1\<close>
          by (simp add: knoten_korrigieren_def split: option.splits)
      qed
    qed
  qed
qed

lemma ok_ende: "ok st (zielsortierung_ende st)"
  by (simp add: zielsortierung_ende_def)

lemma okk_tiefe: "okk n (verspaetungen_korrigieren_tiefe n)"
proof (induction n)
  case 0
  show ?case by (auto simp: okk_def ok_ende split: list.splits)
next
  case (Suc n)
  show ?case unfolding okk_def
  proof (intro allI impI)
    fix st :: planung assume len: "length (zielsortierung st) \<le> Suc n"
    show "ok st (verspaetungen_korrigieren_tiefe (Suc n) st)"
    proof (cases "zielsortierung st")
      case Nil then show ?thesis by (simp add: ok_ende)
    next
      case (Cons node rest)
      let ?st0 = "st\<lparr>zielsortierung := rest\<rparr>"
      have l0: "length (zielsortierung ?st0) \<le> n" using len Cons by simp
      have k: "ok ?st0 (knoten_korrigieren (verspaetungen_korrigieren_tiefe n) node ?st0)"
        by (rule ok_knoten [OF Suc l0])
      show ?thesis
      proof (cases "knoten_korrigieren (verspaetungen_korrigieren_tiefe n) node ?st0")
        case (Inl a)
        then show ?thesis using k Cons by (cases a) simp
      next
        case (Inr st1)
        then have l1: "length (zielsortierung st1) \<le> length rest" using k by simp
        then have "ok st1 (verspaetungen_korrigieren_tiefe n st1)"
          using okkD [OF Suc, of st1] l0 by simp
        then show ?thesis using Inr Cons l1
          by (cases "verspaetungen_korrigieren_tiefe n st1") auto
      qed
    qed
  qed
qed

lemma agreeD: "agree L k1 k2 \<Longrightarrow> length (zielsortierung st) \<le> L \<Longrightarrow> k1 st = k2 st"
  by (simp add: agree_def)

lemma cong_Ersatzzug:
  "agree L k1 k2 \<Longrightarrow> length (zielsortierung st) \<le> L \<Longrightarrow>
   Ersatzzug_anwenden k1 r st = Ersatzzug_anwenden k2 r st"
  unfolding Ersatzzug_anwenden_def Let_def
  by (simp split: option.splits) (auto intro!: agreeD)

lemma cong_Fluegelung:
  "agree L k1 k2 \<Longrightarrow> length (zielsortierung st) \<le> L \<Longrightarrow>
   Fluegelung_anwenden k1 r st = Fluegelung_anwenden k2 r st"
  unfolding Fluegelung_anwenden_def Let_def
  by (simp split: option.splits list.splits) (auto intro!: agreeD)

lemma cong_kuppel_an:
  "agree L k1 k2 \<Longrightarrow> length (zielsortierung st) \<le> L \<Longrightarrow>
   kuppel_an_berechnen k1 r st = kuppel_an_berechnen k2 r st"
  by (simp add: kuppel_an_berechnen_def agreeD)

lemma cong_Kupplung:
  assumes "agree L k1 k2" "okk L k1" "length (zielsortierung st) \<le> L"
  shows "Kupplung_anwenden k1 r st = Kupplung_anwenden k2 r st"
proof -
  note c = cong_kuppel_an [OF assms(1,3), of r]
  note k = kuppel_an_ok [OF assms(2,3), of r]
  show ?thesis
    unfolding Kupplung_anwenden_def Let_def c [symmetric]
    using k assms(3)
    by (simp split: option.splits sum.splits prod.splits) (auto intro!: agreeD [OF assms(1)])
qed

lemma cong_korrektur:
  assumes "agree L k1 k2" "okk L k1" "length (zielsortierung st) \<le> L"
  shows "korrektur_anwenden k1 k r st = korrektur_anwenden k2 k r st"
  unfolding korrektur_anwenden_def
  by (cases k) (simp_all add: cong_Ersatzzug [OF assms(1,3)] cong_Fluegelung [OF assms(1,3)]
       cong_Kupplung [OF assms])

lemma cong_abfahrt:
  assumes "agree L k1 k2" "okk L k1" "length (zielsortierung st) \<le> L"
  shows "abfahrt_korrigieren k1 r st = abfahrt_korrigieren k2 r st"
  unfolding abfahrt_korrigieren_def
  by (simp add: cong_korrektur [OF assms] split: option.splits)

lemma cong_knoten:
  assumes "agree L k1 k2" "okk L k1" "length (zielsortierung st) \<le> L"
  shows "knoten_korrigieren k1 node st = knoten_korrigieren k2 node st"
proof -
  have "abfahrt_korrigieren k1 r st1 = abfahrt_korrigieren k2 r st1"
    if "ankunft_korrigieren node data st = Inr st1" for data st1 r
  proof -
    have "length (zielsortierung st1) \<le> length (zielsortierung st)"
      using ok_ankunft [of st node data] that by simp
    then show ?thesis using assms(3) by (intro cong_abfahrt [OF assms(1,2)]) simp
  qed
  then show ?thesis
    unfolding knoten_korrigieren_def
    by (auto split: option.splits sum.splits)
qed

lemma tiefe_mehr:
  "length (zielsortierung st) \<le> n \<Longrightarrow>
   verspaetungen_korrigieren_tiefe (Suc n) st = verspaetungen_korrigieren_tiefe n st"
proof (induction n arbitrary: st)
  case 0
  then show ?case by simp
next
  case (Suc n)
  show ?case
  proof (cases "zielsortierung st")
    case Nil
    then show ?thesis by simp
  next
    case (Cons node rest)
    let ?st0 = "st\<lparr>zielsortierung := rest\<rparr>"
    have l0: "length (zielsortierung ?st0) \<le> n" using Suc.prems Cons by simp
    have ag: "agree n (verspaetungen_korrigieren_tiefe n) (verspaetungen_korrigieren_tiefe (Suc n))"
      unfolding agree_def using Suc.IH by simp
    have c: "knoten_korrigieren (verspaetungen_korrigieren_tiefe (Suc n)) node ?st0
           = knoten_korrigieren (verspaetungen_korrigieren_tiefe n) node ?st0"
      using cong_knoten [OF ag okk_tiefe l0] by simp
    have k: "ok ?st0 (knoten_korrigieren (verspaetungen_korrigieren_tiefe n) node ?st0)"
      by (rule ok_knoten [OF okk_tiefe l0])
    show ?thesis
    proof (cases "knoten_korrigieren (verspaetungen_korrigieren_tiefe n) node ?st0")
      case (Inl a)
      then show ?thesis using Cons c by simp
    next
      case (Inr st1)
      then have "length (zielsortierung st1) \<le> n" using k l0 by simp
      then have "verspaetungen_korrigieren_tiefe (Suc n) st1 = verspaetungen_korrigieren_tiefe n st1"
        by (rule Suc.IH)
      then show ?thesis using Cons c Inr by simp
    qed
  qed
qed

lemma tiefe_genug:
  "length (zielsortierung st) \<le> n \<Longrightarrow>
   verspaetungen_korrigieren_tiefe n st = verspaetungen_korrigieren st"
proof (induction n)
  case 0
  then show ?case by (simp add: verspaetungen_korrigieren_def)
next
  case (Suc n)
  show ?case
  proof (cases "length (zielsortierung st) \<le> n")
    case True
    then show ?thesis using Suc.IH tiefe_mehr [OF True] by simp
  next
    case False
    then have "length (zielsortierung st) = Suc n" using Suc.prems by simp
    then show ?thesis by (simp add: verspaetungen_korrigieren_def)
  qed
qed

lemma kein_RecursionError: "verspaetungen_korrigieren st \<noteq> Inl (RecursionError, st')"
  using okkD [OF okk_tiefe, of st "length (zielsortierung st)"]
  by (auto simp: verspaetungen_korrigieren_def)

lemma tiefe_Inr_leer:
  "verspaetungen_korrigieren_tiefe n st = Inr st' \<Longrightarrow>
   zielsortierung st' = [] \<and> \<not> zielsortierung_zyklus st'"
proof (induction n arbitrary: st)
  case 0
  then show ?case by (auto simp: zielsortierung_ende_def split: list.splits if_splits)
next
  case (Suc n)
  then show ?case
    by (auto simp: zielsortierung_ende_def split: list.splits if_splits sum.splits)
qed

lemma unverbraucht:
  "verspaetungen_korrigieren st = Inr st' \<Longrightarrow> verspaetungen_korrigieren st' = Inr st'"
  by (drule tiefe_Inr_leer [of "length (zielsortierung st)" st st', unfolded verspaetungen_korrigieren_def [symmetric]])
     (simp add: verspaetungen_korrigieren_def zielsortierung_ende_def)

section \<open>Properties of the single-row corrections\<close>

lemma kupplung_schleife_cases:
  "kupplung_schleife k p v =
     (if k - (p + v) = 1 then v + 3
      else if k - (p + v) = 0 then v + 2
      else if k - (p + v) = - 1 then v + 1
      else v)"
proof -
  have stop: "\<And>w. \<not> \<bar>k - (p + w)\<bar> < 2 \<Longrightarrow> kupplung_schleife k p w = w"
    by (subst kupplung_schleife.simps) simp
  have step: "\<And>w. \<bar>k - (p + w)\<bar> < 2 \<Longrightarrow> kupplung_schleife k p w = kupplung_schleife k p (w + 1)"
    by (subst kupplung_schleife.simps) simp
  have m1: "k - (p + v) = - 1 \<Longrightarrow> kupplung_schleife k p v = v + 1"
    using step [of v] stop [of "v + 1"] by simp
  have z: "k - (p + v) = 0 \<Longrightarrow> kupplung_schleife k p v = v + 2"
    using step [of v] step [of "v + 1"] stop [of "v + 2"] by (simp add: ac_simps)
  have p1: "k - (p + v) = 1 \<Longrightarrow> kupplung_schleife k p v = v + 3"
    using step [of v] step [of "v + 1"] step [of "v + 2"] stop [of "v + 3"] by (simp add: ac_simps)
  have other: "\<not> \<bar>k - (p + v)\<bar> < 2 \<Longrightarrow> kupplung_schleife k p v = v"
    by (rule stop)
  show ?thesis using m1 z p1 other by (auto simp: abs_if split: if_splits)
qed

lemma kupplung_durchlaeufe_cases:
  "kupplung_durchlaeufe k p v =
     (if k - (p + v) = 1 then 3
      else if k - (p + v) = 0 then 2
      else if k - (p + v) = - 1 then 1
      else 0)"
proof -
  have stop: "\<And>w. \<not> \<bar>k - (p + w)\<bar> < 2 \<Longrightarrow> kupplung_durchlaeufe k p w = 0"
    by (subst kupplung_durchlaeufe.simps) simp
  have step: "\<And>w. \<bar>k - (p + w)\<bar> < 2 \<Longrightarrow>
      kupplung_durchlaeufe k p w = Suc (kupplung_durchlaeufe k p (w + 1))"
    by (subst kupplung_durchlaeufe.simps) simp
  have m1: "k - (p + v) = - 1 \<Longrightarrow> kupplung_durchlaeufe k p v = 1"
    using step [of v] stop [of "v + 1"] by simp
  have z: "k - (p + v) = 0 \<Longrightarrow> kupplung_durchlaeufe k p v = 2"
    using step [of v] step [of "v + 1"] stop [of "v + 2"] by (simp add: ac_simps)
  have p1: "k - (p + v) = 1 \<Longrightarrow> kupplung_durchlaeufe k p v = 3"
    using step [of v] step [of "v + 1"] step [of "v + 2"] stop [of "v + 3"] by (simp add: ac_simps)
  have other: "\<not> \<bar>k - (p + v)\<bar> < 2 \<Longrightarrow> kupplung_durchlaeufe k p v = 0"
    by (rule stop)
  show ?thesis using m1 z p1 other by (auto simp: abs_if split: if_splits)
qed

text \<open>
  C10. The separation loop of \<open>Kupplung.anwenden\<close> terminates for every input
  (\<open>kupplung_schleife\<close> and \<open>kupplung_durchlaeufe\<close> are total functions, by the
  termination proofs above, with \<open>kuppel_an\<close> a constant argument of the recursion):
  the arrival delay grows by one per run of the body, the body runs at most
  \<open>max(0, kuppel_an - plan_an - verspaetung_an) + 2\<close> times, and the loop condition is
  false for the delay the loop returns.
\<close>

theorem kupplung_schleife_terminiert:
  "kupplung_schleife kuppel_an plan_an v = v + int (kupplung_durchlaeufe kuppel_an plan_an v)
   \<and> int (kupplung_durchlaeufe kuppel_an plan_an v) \<le> max 0 (kuppel_an - plan_an - v) + 2
   \<and> 2 \<le> \<bar>kuppel_an - (plan_an + kupplung_schleife kuppel_an plan_an v)\<bar>"
  unfolding kupplung_schleife_cases kupplung_durchlaeufe_cases
  by (auto simp: abs_if)

text \<open>
  C5. \<open>PlanmaessigeAbfahrt.anwenden\<close> on a row with a planned arrival sets the departure
  delay to \<open>(a + dwell) - p_d\<close>, with \<open>a\<close> the planned arrival plus the arrival delay,
  \<open>p_d\<close> the planned departure or, when absent, the planned arrival plus the minimum
  dwell, and \<open>dwell = max(p_d - a, min_dwell)\<close>; no other attribute of the row changes.
  A row planned 10:00 to 10:07 that arrives 4 minutes late with a minimum dwell of 2
  gets the departure delay 0.
\<close>

theorem PlanmaessigeAbfahrt_anwenden_regel:
  assumes "an ziel = Some p_a"
  defines "p_d \<equiv> (case ab ziel of Some t \<Rightarrow> t | None \<Rightarrow> p_a + mindestaufenthalt ziel)"
  defines "a \<equiv> p_a + verspaetung_an ziel"
  defines "dwell \<equiv> max (p_d - a) (mindestaufenthalt ziel)"
  shows "PlanmaessigeAbfahrt_anwenden ziel = ziel\<lparr>verspaetung_ab := (a + dwell) - p_d\<rparr>
    \<and> (p_a = 600 \<and> verspaetung_an ziel = 4 \<and> ab ziel = Some 607 \<and> mindestaufenthalt ziel = 2
        \<longrightarrow> verspaetung_ab (PlanmaessigeAbfahrt_anwenden ziel) = 0)"
  using assms by (auto simp: PlanmaessigeAbfahrt_anwenden_def Let_def split: option.splits)

theorem PlanmaessigeAbfahrt_anwenden_regel_witness:
  "an ((ZugZielPlanung 200)\<lparr>an := Some 600, ab := Some 607, verspaetung_an := 4,
        mindestaufenthalt := 2\<rparr>) = Some 600
   \<and> verspaetung_ab (PlanmaessigeAbfahrt_anwenden
        ((ZugZielPlanung 200)\<lparr>an := Some 600, ab := Some 607, verspaetung_an := 4,
           mindestaufenthalt := 2\<rparr>)) = 0"
  using PlanmaessigeAbfahrt_anwenden_regel
    [of "(ZugZielPlanung 200)\<lparr>an := Some 600, ab := Some 607, verspaetung_an := 4,
           mindestaufenthalt := 2\<rparr>" 600]
  by (simp add: ZugZielPlanung_def)

text \<open>
  Entry rows are built by \<open>assign_zug_details\<close> only, with the planned departure equal
  to the planned arrival and without a minimum dwell.
\<close>

lemma set_map_enumerate:
  "z \<in> set (map (\<lambda>(n, x). f n x) (enumerate k xs)) \<Longrightarrow> \<exists>n x. x \<in> set xs \<and> z = f n x"
proof -
  assume "z \<in> set (map (\<lambda>(n, x). f n x) (enumerate k xs))"
  then obtain n x where a: "(n, x) \<in> set (enumerate k xs)" and b: "z = f n x" by auto
  from a have "x \<in> set xs" by (auto simp: in_set_enumerate_eq)
  with b show ?thesis by blast
qed

lemma set_list_update_cases:
  "z \<in> set (xs[n := h (xs ! n)]) \<Longrightarrow> z \<in> set xs \<or> (\<exists>x \<in> set xs. z = h x)"
proof (cases "n < length xs")
  case True
  assume "z \<in> set (xs[n := h (xs ! n)])"
  then have "z = h (xs ! n) \<or> z \<in> set xs"
    using set_update_subset_insert [of xs n "h (xs ! n)"] by auto
  then show ?thesis using True nth_mem [of n xs] by auto
next
  case False
  assume a: "z \<in> set (xs[n := h (xs ! n)])"
  have "xs[n := h (xs ! n)] = xs" using False by (simp add: list_update_beyond)
  with a show ?thesis by simp
qed

lemma startaufstellung_einfahrt:
  assumes "startaufstellung zug self = Inr self'" and "\<forall>z \<in> set (fahrplan self). \<not> einfahrt z"
  shows "\<forall>z \<in> set (fahrplan self'). \<not> einfahrt z"
proof
  fix z assume z: "z \<in> set (fahrplan self')"
  define n where "n = (case find_fahrplan_index (plangleis zug) (fahrplan self) of
                         Some i \<Rightarrow> i | None \<Rightarrow> length (fahrplan self) - 1)"
  define g where "g = (\<lambda>ziel::zugziel. ziel\<lparr>abgefahren := Wahr, angekommen := Wahr,
                                  verspaetung_ab := verspaetung zug,
                                  verspaetung_an := verspaetung zug\<rparr>)"
  define h where "h = (\<lambda>ziel::zugziel. ziel\<lparr>angekommen := Wahr,
                                                 verspaetung_an := verspaetung zug\<rparr>)"
  define fp1 where "fp1 = map g (take n (fahrplan self)) @ drop n (fahrplan self)"
  have fp1: "\<forall>y \<in> set fp1. \<not> einfahrt y"
    using assms(2) by (auto simp: fp1_def g_def dest: in_set_takeD in_set_dropD)
  have "fahrplan self' = fp1[n := h (fp1 ! n)] \<or> fahrplan self' = fp1"
    using assms(1)
    by (auto simp: startaufstellung_def Let_def n_def g_def h_def fp1_def split: if_splits)
  then have "z \<in> set fp1 \<or> (\<exists>x \<in> set fp1. z = h x)"
    using z set_list_update_cases [of z fp1 n h] by auto
  then show "\<not> einfahrt z" using fp1 by (auto simp: h_def)
qed

lemma assign_zug_details_einfahrt:
  assumes "assign_zug_details zug = Inr self" and "ziel \<in> set (fahrplan self)" and "einfahrt ziel"
  shows "ab ziel = an ziel \<and> mindestaufenthalt ziel = 0"
proof -
  define self_von where "self_von = (if von zug \<noteq> [] then str_replace_leer ''Gleis '' (von zug) else [])"
  define self_nach where "self_nach = (if nach zug \<noteq> [] then str_replace_leer ''Gleis '' (nach zug) else [])"
  define einfahrten where "einfahrten =
            (if \<not> sichtbar zug \<and> self_von \<noteq> [] \<and> \<not> startswith (von zug) ''Gleis''
             then [(ZugZielPlanung (zid zug))
                     \<lparr>plan := self_von, gleis := self_von,
                      an := (case fahrplan zug of [] \<Rightarrow> None | z # zs \<Rightarrow> an z),
                      ab := (case fahrplan zug of [] \<Rightarrow> None | z # zs \<Rightarrow> an z),
                      einfahrt := True\<rparr>]
             else [])"
  define zeilen where "zeilen = map (assign_fahrplan_zeile (ZugZielPlanung (zid zug))) (fahrplan zug)"
  define ausfahrten where "ausfahrten =
            (if self_nach \<noteq> [] \<and> \<not> startswith (nach zug) ''Gleis''
             then [(ZugZielPlanung (zid zug))
                     \<lparr>plan := self_nach, gleis := self_nach,
                      an := (if fahrplan zug = [] then None else ab (last (fahrplan zug))),
                      ab := (if fahrplan zug = [] then None else ab (last (fahrplan zug))),
                      ausfahrt := True\<rparr>]
             else [])"
  define fp where "fp = map (\<lambda>(n, z). z\<lparr>zielnr := int n * 1000\<rparr>)
                 (enumerate 0 (einfahrten @ zeilen @ ausfahrten))"
  define self0 where "self0 = ZugDetailsPlanung
                   \<lparr>zid := zid zug, name := name zug, von := self_von, nach := self_nach,
                    zug_hinweistext := zug_hinweistext zug, fahrplan := fp\<rparr>"
  have res: "(if sichtbar zug then startaufstellung zug self0 else Inr self0) = Inr self"
    using assms(1)
    unfolding assign_zug_details_def Let_def self_von_def [symmetric] self_nach_def [symmetric]
      einfahrten_def [symmetric] zeilen_def [symmetric] ausfahrten_def [symmetric]
      fp_def [symmetric] self0_def [symmetric] .
  have fp0: "fahrplan self0 = fp" by (simp add: self0_def)
  have rows: "\<forall>x \<in> set (einfahrten @ zeilen @ ausfahrten).
                (einfahrt x \<longrightarrow> \<not> sichtbar zug \<and> ab x = an x \<and> mindestaufenthalt x = 0)"
    by (auto simp: einfahrten_def zeilen_def ausfahrten_def ZugZielPlanung_def
          assign_fahrplan_zeile_def)
  have fp: "\<forall>x \<in> set fp. (einfahrt x \<longrightarrow> \<not> sichtbar zug \<and> ab x = an x \<and> mindestaufenthalt x = 0)"
  proof
    fix x assume "x \<in> set fp"
    then obtain n y where "y \<in> set (einfahrten @ zeilen @ ausfahrten)" "x = y\<lparr>zielnr := int n * 1000\<rparr>"
      unfolding fp_def using set_map_enumerate [of x "\<lambda>n z. z\<lparr>zielnr := int n * 1000\<rparr>" 0] by blast
    then show "einfahrt x \<longrightarrow> \<not> sichtbar zug \<and> ab x = an x \<and> mindestaufenthalt x = 0"
      using rows by auto
  qed
  show ?thesis
  proof (cases "sichtbar zug")
    case False
    then have "self = self0" using res by simp
    then show ?thesis using fp fp0 assms(2,3) False by auto
  next
    case True
    then have "startaufstellung zug self0 = Inr self" using res by simp
    moreover have "\<forall>z \<in> set (fahrplan self0). \<not> einfahrt z" using fp fp0 True by auto
    ultimately have "\<forall>z \<in> set (fahrplan self). \<not> einfahrt z"
      by (rule startaufstellung_einfahrt)
    then show ?thesis using assms(2,3) by blast
  qed
qed




section \<open>Properties of the propagation sweep\<close>

lemma vorgaenger_v_ab_cases:
  "vorgaenger_v_ab st node =
     (if node \<in> snd ` fst ` set (zielgraph_edges st) then None else Some [])"
proof -
  have a: "those (map (\<lambda>x. None) xs) = (if xs = [] then Some [] else None)" for xs :: "'a list"
    by (cases xs) simp_all
  have b: "(\<lambda>((pred, n), pred_data). kante_attribut pred_data ''v_ab'') = (\<lambda>x. None)"
    by (auto simp: kante_attribut_def)
  have c: "filter (\<lambda>((pred, n), pred_data). n = node) (zielgraph_edges st) = []
           \<longleftrightarrow> node \<notin> snd ` fst ` set (zielgraph_edges st)"
    by (force simp: filter_empty_conv)
  show ?thesis unfolding vorgaenger_v_ab_def b a c by simp
qed

text \<open>
  C2. The first half of the loop body of \<open>verspaetungen_korrigieren\<close>, for a node whose
  row and train exist. For a row that has arrived the node attribute \<open>v_an\<close> becomes
  the arrival delay of the row, which is kept. For a row that has not arrived and
  whose node has a predecessor the subscript \<open>pred_data['v_ab']\<close> raises \<open>KeyError\<close>,
  since \<open>pred_data\<close> is the attribute dictionary of the edge, and nothing is assigned.
  For a row that has not arrived and whose node has no predecessor the arrival delay
  of the row and the node attribute \<open>v_an\<close> become the delay of the train.
\<close>

theorem ankunft_korrigieren_vorgaenger:
  assumes "ziel_von st (obj data) = Some ziel" and "zug_von st (fst (obj data)) = Some zug"
  shows "ankunft_korrigieren node data st =
     (if wahr (angekommen ziel)
      then Inr (knoten_setzen st node (\<lambda>d. d\<lparr>v_an := verspaetung_an ziel\<rparr>))
      else if node \<in> snd ` fst ` set (zielgraph_edges st)
      then Inl (KeyError, st)
      else Inr (knoten_setzen
                  (ziel_aendern st (obj data) (\<lambda>z. z\<lparr>verspaetung_an := verspaetung zug\<rparr>))
                  node (\<lambda>d. d\<lparr>v_an := verspaetung zug\<rparr>)))"
  using assms by (simp add: ankunft_korrigieren_def vorgaenger_v_ab_cases Let_def)

theorem ankunft_korrigieren_vorgaenger_witness:
  "ziel_von (zustand planung_100) (100, 1) \<noteq> None
   \<and> zug_von (zustand planung_100) 100 \<noteq> None
   \<and> \<not> wahr (angekommen (the (ziel_von (zustand planung_100) (100, 1))))
   \<and> ((''E'', 100, ''X''), (''H'', 100, ''1'')) \<in> set (map fst (zielgraph_edges (zustand planung_100)))
   \<and> ankunft_korrigieren (''H'', 100, ''1'')
        (the (knoten_von (zustand planung_100) (''H'', 100, ''1''))) (zustand planung_100)
       = Inl (KeyError, zustand planung_100)
   \<and> fehler (korrigieren_um 605 (zustand planung_100)) = Some KeyError"
proof -
  have 0: "obj (the (knoten_von (zustand planung_100) (''H'', 100, ''1''))) = (100, 1)"
    by code_simp
  have 1: "ziel_von (zustand planung_100) (100, 1)
           = Some (the (ziel_von (zustand planung_100) (100, 1)))"
    by code_simp
  have 2: "zug_von (zustand planung_100) 100 = Some (the (zug_von (zustand planung_100) 100))"
    by code_simp
  have 3: "\<not> wahr (angekommen (the (ziel_von (zustand planung_100) (100, 1))))"
    by code_simp
  have 4: "((''E'', 100, ''X''), (''H'', 100, ''1''))
             \<in> set (map fst (zielgraph_edges (zustand planung_100)))"
    by code_simp
  have 5: "fehler (korrigieren_um 605 (zustand planung_100)) = Some KeyError"
    by code_simp
  have 6: "(''H'', 100, ''1'') \<in> snd ` fst ` set (zielgraph_edges (zustand planung_100))"
    using 4 by force
  show ?thesis
    using ankunft_korrigieren_vorgaenger
      [of "zustand planung_100" "the (knoten_von (zustand planung_100) (''H'', 100, ''1''))"
          "the (ziel_von (zustand planung_100) (100, 1))"
          "the (zug_von (zustand planung_100) 100)" "(''H'', 100, ''1'')"]
      0 1 2 3 4 5 6
    by auto
qed

text \<open>
  C9. Two calls of \<open>verspaetungen_korrigieren\<close> in succession can leave other delays
  than one call. With trains 100 and 7 ingested, the first call at 10:05 raises
  \<open>KeyError\<close> at the node of train 100 at track 1 and leaves the row of train 7 at
  track 2 with the departure delay 0; the second call takes the next node from the
  same generator and sets the departure delay of that row to 2.
\<close>

theorem verspaetungen_korrigieren_zweimal:
  "\<not> isl planung_100_7
   \<and> fehler (korrigieren_um 605 (zustand planung_100_7)) = Some KeyError
   \<and> map_option verspaetung_ab (ziel_von planung_100_7_einmal (7, 1)) = Some 0
   \<and> map_option verspaetung_ab (ziel_von planung_100_7_zweimal (7, 1)) = Some 2"
  by code_simp

text \<open>
  C7. Not every correction falls back when a planned time is missing, and the sweep
  can raise to its caller. Train 1 stands at track 5 and starts there (its row has
  no planned arrival) and is renumbered to train 2; in the next snapshot train 2
  stands at track 5. Ingestion installs \<open>AnkunftAbwarten\<close> with the row of train 1 as
  origin on the first row of train 2; \<open>AnkunftAbwarten.anwenden\<close> reads the planned
  arrival of the origin outside of any \<open>try\<close>, and \<open>verspaetungen_korrigieren\<close> raises
  \<open>AttributeError\<close>.
\<close>

theorem AnkunftAbwarten_ohne_ankunft:
  "\<not> isl planung_ersatz
   \<and> map_option auto_korrektur (zeile_in planung_ersatz (2, 0))
       = Some (Some (AnkunftAbwarten (Some (1, 0)) 0))
   \<and> map_option angekommen (zeile_in planung_ersatz (2, 0)) = Some Wahr
   \<and> map_option abgefahren (zeile_in planung_ersatz (2, 0)) = Some Falsch
   \<and> map_option an (zeile_in planung_ersatz (1, 0)) = Some None
   \<and> fehler (korrigieren_um 600 (zustand planung_ersatz)) = Some AttributeError"
  by code_simp

text \<open>
  When both trains have arrived at track 5 at 10:30 and train 2 ends there, the sweep
  returns and \<open>Kupplung.anwenden\<close> has raised the arrival delay of the row of train 1
  from 0 to 2; the partner stays at 10:30.
\<close>

lemma szenario_kupplung_da:
  "\<not> isl planung_kupplung_da
   \<and> fehler (korrigieren_um 0 (zustand planung_kupplung_da)) = None
   \<and> map_option verspaetung_an (zeile_in planung_kupplung_da (1, 0)) = Some 0
   \<and> map_option verspaetung_an
        (ziel_von (danach (korrigieren_um 0 (zustand planung_kupplung_da))) (1, 0)) = Some 2
   \<and> map_option verspaetung_ab
        (ziel_von (danach (korrigieren_um 0 (zustand planung_kupplung_da))) (1, 0)) = Some 2
   \<and> map_option verspaetung_an
        (ziel_von (danach (korrigieren_um 0 (zustand planung_kupplung_da))) (2, 0)) = Some 0"
  by code_simp

text \<open>
  C3. \<open>Kupplung.anwenden\<close> does not get to the computation of \<open>kuppel_an\<close> when the
  partner train is still on its way. Train 1 has arrived at track 5 at 10:30 and
  couples to train 2, planned at track 5 at 10:30 (scenario S4): recomputing the
  partner raises \<open>KeyError\<close> at the row of the partner at track 5, which the handler
  for \<open>AttributeError\<close> and \<open>IndexError\<close> does not catch, the sweep raises \<open>KeyError\<close>
  and the arrival delay of the row of train 1 stays 0. When train 2 has no row at
  track 5 the sweep raises \<open>KeyError\<close> as well, at the node without attributes that
  the coupling edge has created.
\<close>

theorem Kupplung_partner_unterwegs:
  "\<not> isl planung_S4
   \<and> map_option auto_korrektur (zeile_in planung_S4 (1, 0)) = Some (Some Kupplung)
   \<and> map_option angekommen (zeile_in planung_S4 (1, 0)) = Some Wahr
   \<and> map_option abgefahren (zeile_in planung_S4 (1, 0)) = Some Falsch
   \<and> map_option an (zeile_in planung_S4 (1, 0)) = Some (Some 630)
   \<and> map_option kuppelzug (zeile_in planung_S4 (1, 0)) = Some (Some 2)
   \<and> map_option an (zeile_in planung_S4 (2, 1)) = Some (Some 630)
   \<and> map_option plan (zeile_in planung_S4 (2, 1)) = Some ''5''
   \<and> fehler (korrigieren_um 0 (zustand planung_S4)) = Some KeyError
   \<and> map_option verspaetung_an
        (ziel_von (danach (korrigieren_um 0 (zustand planung_S4))) (1, 0)) = Some 0
   \<and> \<not> isl planung_kupplung
   \<and> map_option (\<lambda>z. find_fahrplan_index ''5'' (fahrplan z)) (zug_in planung_kupplung 2)
       = Some None
   \<and> fehler (korrigieren_um 0 (zustand planung_kupplung)) = Some KeyError"
  by code_simp

section \<open>Properties of events and ingestion\<close>

text \<open>
  Train 6 stands at track 1. A departure event that reports the train at the platform
  and without delay changes nothing: the row is not marked as departed, its departure
  delay is not set and no \<open>Signalhalt\<close> is installed.
\<close>

theorem abfahrt_am_gleis_counterexample:
  "\<not> isl planung_6 \<and> art abfahrt_6 = ''abfahrt'' \<and> amgleis abfahrt_6 \<and> verspaetung abfahrt_6 = 0
   \<and> dann planung_6 (ereignis_uebernehmen abfahrt_6) = planung_6
   \<and> map_option abgefahren (zeile_in planung_6 (6, 0)) = Some Falsch
   \<and> map_option auto_korrektur (zeile_in planung_6 (6, 0)) = Some (Some PlanmaessigeAbfahrt)"
  by code_simp

text \<open>
  C6, amended. A departure event for a known train whose current row exists, for a
  row that is not before the current one: when the event reports the train at the
  platform, a \<open>Signalhalt\<close> with the delay of the event is installed as the automatic
  correction of the current row if the delay is positive, and nothing changes
  otherwise; when the event reports the train off the platform, the departure delay
  of the current row is set to the delay of the event and the row is marked as
  departed at the time of the event.
\<close>

theorem ereignis_abfahrt_regel:
  assumes "zug_von st (zid e) = Some zug" and "ziel_index zug = Some i"
    and "py_index i (fahrplan zug) = Some alt"
    and "(if plangleis e \<noteq> []
          then map_option int (find_fahrplan_index (plangleis e) (fahrplan zug))
          else Some (int (length (fahrplan zug)) - 1)) = Some neu"
    and "\<not> neu < i" and "art e = ''abfahrt''"
  shows "ereignis_uebernehmen e st =
     Inr (if amgleis e
          then (if 0 < verspaetung e
                then ziel_aendern st (zid e, alt)
                       (\<lambda>z. z\<lparr>auto_korrektur := Some (Signalhalt (verspaetung e))\<rparr>)
                else st)
          else ziel_aendern st (zid e, alt)
                 (\<lambda>z. z\<lparr>verspaetung_ab := verspaetung e, abgefahren := Zeitpunkt (zeit e)\<rparr>))"
  using assms by (simp add: ereignis_uebernehmen_def)

theorem ereignis_abfahrt_regel_witness:
  "zug_von (zustand planung_6) (zid abfahrt_6_frei) = Some (the (zug_von (zustand planung_6) 6))
   \<and> ziel_index (the (zug_von (zustand planung_6) 6)) = Some 0
   \<and> py_index 0 (fahrplan (the (zug_von (zustand planung_6) 6))) = Some 0
   \<and> art abfahrt_6_frei = ''abfahrt'' \<and> \<not> amgleis abfahrt_6_frei
   \<and> ereignis_uebernehmen abfahrt_6_frei (zustand planung_6) =
       Inr (ziel_aendern (zustand planung_6) (6, 0)
              (\<lambda>z. z\<lparr>verspaetung_ab := 3, abgefahren := Zeitpunkt 602\<rparr>))"
proof -
  have 1: "zug_von (zustand planung_6) (zid abfahrt_6_frei)
             = Some (the (zug_von (zustand planung_6) 6))"
    by code_simp
  have 2: "ziel_index (the (zug_von (zustand planung_6) 6)) = Some 0"
    by code_simp
  have 3: "py_index 0 (fahrplan (the (zug_von (zustand planung_6) 6))) = Some 0"
    by code_simp
  have 4: "(if plangleis abfahrt_6_frei \<noteq> []
            then map_option int (find_fahrplan_index (plangleis abfahrt_6_frei)
                                   (fahrplan (the (zug_von (zustand planung_6) 6))))
            else Some (int (length (fahrplan (the (zug_von (zustand planung_6) 6)))) - 1))
           = Some 0"
    by code_simp
  have 5: "\<not> (0::int) < 0" by simp
  have 6: "art abfahrt_6_frei = ''abfahrt''" by code_simp
  have 7: "\<not> amgleis abfahrt_6_frei" "zid abfahrt_6_frei = 6"
    "verspaetung abfahrt_6_frei = 3" "zeit abfahrt_6_frei = 602"
    by code_simp+
  show ?thesis
    using ereignis_abfahrt_regel [OF 1 2 3 4 5 6] 1 2 3 6 7 by simp
qed

subsection \<open>Trains that are not in the snapshot\<close>

lemma markiert_in_cong:
  "zugbaum_nodes st' = zugbaum_nodes st \<Longrightarrow> markiert_in st' z = markiert_in st z"
  by (simp add: markiert_in_def zug_von_def)




lemma map_of_knoten_ergaenzen:
  "(case map_of (knoten_ergaenzen n nodes) k of Some (Some d) \<Rightarrow> Some d | _ \<Rightarrow> None)
   = (case map_of nodes k of Some (Some d) \<Rightarrow> Some d | _ \<Rightarrow> None)"
  by (auto simp: knoten_ergaenzen_def map_add_def split: option.splits)

lemma zug_von_zugbaum_add_edge [simp]: "zug_von (zugbaum_add_edge u v f n st) z = zug_von st z"
  by (simp add: zug_von_def zugbaum_add_edge_def map_of_knoten_ergaenzen)

lemma zug_von_zielgraph_add_node [simp]: "zug_von (zielgraph_add_node n d st) z = zug_von st z"
  by (simp add: zug_von_def zielgraph_add_node_def)

lemma zug_von_zielgraph_add_edge [simp]: "zug_von (zielgraph_add_edge u v t st) z = zug_von st z"
  by (simp add: zug_von_def zielgraph_add_edge_def)














lemma wahr_oder_wahr [simp]: "wahr (oder_wahr x)"
  by (cases x) simp_all





subsection \<open>Cycles in the target graph\<close>

text \<open>
  C1. The target graph can hold a cycle after \<open>zuege_uebernehmen\<close> has returned.
  With the dispatcher's corrections that let trains 1 and 2 wait for the departure of
  each other, \<open>_zielgraph_erstellen\<close> adds both edges between their rows at track 1 and
  track 2; no edge is rejected, and the next call of \<open>verspaetungen_korrigieren\<close> raises
  \<open>NetworkXUnfeasible\<close>.
\<close>

theorem zielgraph_mit_zyklus:
  "\<not> isl planung_gegenseitig
   \<and> ((''H'', 1, ''1''), (''H'', 2, ''2'')) \<in> set (kanten_in planung_gegenseitig)
   \<and> ((''H'', 2, ''2''), (''H'', 1, ''1'')) \<in> set (kanten_in planung_gegenseitig)
   \<and> \<not> acyclic (set (kanten_in planung_gegenseitig))
   \<and> fehler (korrigieren_um 600 (zustand planung_gegenseitig)) = Some NetworkXUnfeasible"
proof -
  have a: "\<not> isl planung_gegenseitig" by code_simp
  have b: "((''H'', 1, ''1''), (''H'', 2, ''2'')) \<in> set (kanten_in planung_gegenseitig)"
    by code_simp
  have c: "((''H'', 2, ''2''), (''H'', 1, ''1'')) \<in> set (kanten_in planung_gegenseitig)"
    by code_simp
  have d: "fehler (korrigieren_um 600 (zustand planung_gegenseitig)) = Some NetworkXUnfeasible"
    by code_simp
  have "((''H'', 1, ''1''), (''H'', 1::int, ''1'')) \<in> (set (kanten_in planung_gegenseitig))\<^sup>+"
    using b c by (rule trancl_into_trancl [OF r_into_trancl])
  then have "\<not> acyclic (set (kanten_in planung_gegenseitig))"
    by (auto simp: acyclic_def)
  with a b c d show ?thesis by blast
qed

end
